theory Spec2Isabelle
  imports Main "HOL-Library.Multiset"
begin

section \<open>The JavaScript runtime the pages rely on\<close>

text \<open>
  Strings are lists of code units (\<^typ>\<open>string\<close>), a \<^typ>\<open>char\<close> being a code unit
  of the range \<open>0x00\<close> to \<open>0xFF\<close> (ASCII and Latin-1).  A value that may be
  \<^verbatim>\<open>null\<close> or \<^verbatim>\<open>undefined\<close> is an \<^typ>\<open>'a option\<close>.
\<close>

definition truthy :: "string \<Rightarrow> bool" where
  \<comment> \<open>JavaScript truthiness of a string: every string but the empty one.\<close>
  "truthy s = (s \<noteq> [])"

definition truthy_opt :: "string option \<Rightarrow> bool" where
  \<comment> \<open>Truthiness of \<^verbatim>\<open>string | null | undefined\<close>.\<close>
  "truthy_opt v = (case v of None \<Rightarrow> False | Some s \<Rightarrow> truthy s)"

definition isWhiteSpace :: "char \<Rightarrow> bool" where
  \<comment> \<open>the white space and line terminators of ECMAScript in this range: tab, line feed,
      vertical tab, form feed, carriage return, space, no-break space\<close>
  "isWhiteSpace c =
     (c \<in> set [CHR 0x09, CHR 0x0A, CHR 0x0B, CHR 0x0C, CHR 0x0D, CHR 0x20, CHR 0xA0])"

definition trim :: "string \<Rightarrow> string" where
  \<comment> \<open>\<^verbatim>\<open>String.prototype.trim\<close>\<close>
  "trim s = rev (dropWhile isWhiteSpace (rev (dropWhile isWhiteSpace s)))"

definition lowerChar :: "char \<Rightarrow> char" where
  \<comment> \<open>the capitals \<open>A\<close> to \<open>Z\<close>, and the Latin-1 capitals \<open>0xC0\<close> to \<open>0xDE\<close> but for the
      multiplication sign \<open>0xD7\<close>, move up by 32\<close>
  "lowerChar c =
     (let n = (of_char c :: nat)
      in if (65 \<le> n \<and> n \<le> 90) \<or> (192 \<le> n \<and> n \<le> 222 \<and> n \<noteq> 215) then char_of (n + 32)
         else c)"

definition toLowerCase :: "string \<Rightarrow> string" where
  \<comment> \<open>\<^verbatim>\<open>String.prototype.toLowerCase\<close>\<close>
  "toLowerCase s = map lowerChar s"

text \<open>
  \<^verbatim>\<open>String.prototype.localeCompare\<close> is supplied by the host's collation tables; every
  definition that calls it takes it as the parameter \<open>lc\<close>, returning a negative, zero or
  positive integer.  \<open>consistent_compare\<close> is what ECMAScript calls a consistent comparator:
  the sign flips when the arguments are swapped, and \<open>\<le> 0\<close> is transitive.
\<close>

type_synonym 'a comparator = "'a \<Rightarrow> 'a \<Rightarrow> int"

definition consistent_compare :: "'a comparator \<Rightarrow> bool" where
  "consistent_compare c \<longleftrightarrow>
     (\<forall>a b. (c a b < 0) = (0 < c b a)) \<and>
     (\<forall>a b d. c a b \<le> 0 \<and> c b d \<le> 0 \<longrightarrow> c a d \<le> 0)"

text \<open>
  \<^verbatim>\<open>Array.prototype.sort\<close> with a comparator: a stable sort.  \<open>sortInsert\<close> puts an
  element in front of the first element it does not follow, so elements that compare equal
  keep their input order.
\<close>

fun sortInsert :: "'a comparator \<Rightarrow> 'a \<Rightarrow> 'a list \<Rightarrow> 'a list" where
  "sortInsert c x [] = [x]"
| "sortInsert c x (y # ys) = (if c x y \<le> 0 then x # y # ys else y # sortInsert c x ys)"

fun array_sort :: "'a comparator \<Rightarrow> 'a list \<Rightarrow> 'a list" where
  "array_sort c [] = []"
| "array_sort c (x # xs) = sortInsert c x (array_sort c xs)"

text \<open>A code-unit comparison of strings, one concrete instance of \<open>localeCompare\<close>.\<close>

fun codeUnitCompare :: "string comparator" where
  "codeUnitCompare [] [] = 0"
| "codeUnitCompare [] (y # ys) = -1"
| "codeUnitCompare (x # xs) [] = 1"
| "codeUnitCompare (x # xs) (y # ys) =
     (if (of_char x :: nat) < of_char y then -1
      else if (of_char y :: nat) < of_char x then 1
      else codeUnitCompare xs ys)"

text \<open>
  JSON values, as \<^verbatim>\<open>JSON.parse\<close> returns them.  A number is kept as the decimal
  \<open>m \<times> 10\<^sup>e\<close> of its literal; the pages only ever look at the kind of a value.
\<close>

datatype json =
    JNull
  | JBool bool
  | JNum int int
  | JStr string
  | JArr "json list"
  | JObj "(string \<times> json) list"

section \<open>The records of the REST client\<close>

record GatewayRead =
  gw_id :: string
  gw_name :: string

record BoardRead =
  bd_id :: string
  bd_name :: string

record LlmModelRead =
  lm_id :: string
  lm_gateway_id :: string
  lm_provider :: string
  lm_model_id :: string
  lm_display_name :: string
  lm_settings :: "(string \<times> json) list option"
  lm_created_at :: string
  lm_updated_at :: string

record LlmProviderAuthRead =
  pa_id :: string
  pa_gateway_id :: string
  pa_provider :: string
  pa_config_path :: string
  pa_has_secret :: bool
  pa_updated_at :: string

record AgentRead =
  ag_id :: string
  ag_name :: string
  ag_gateway_id :: string
  ag_board_id :: "string option"
  ag_primary_model_id :: "string option"
  ag_fallback_model_ids :: "string list option"
  ag_role :: "string option"
    \<comment> \<open>\<^verbatim>\<open>identity_profile?.role\<close> when it is a string, \<open>None\<close> otherwise\<close>

text \<open>The form pages are mounted in one of two modes; edit mode carries the item's id.\<close>

datatype form_mode = Create | Edit string

definition isEdit :: "form_mode \<Rightarrow> bool" where
  \<comment> \<open>\<^verbatim>\<open>props.mode === "edit"\<close>\<close>
  "isEdit mode = (case mode of Create \<Rightarrow> False | Edit _ \<Rightarrow> True)"

section \<open>Gateway selection\<close>

definition someGateway :: "GatewayRead list \<Rightarrow> string \<Rightarrow> bool" where
  \<comment> \<open>\<^verbatim>\<open>gateways.some((gateway) => gateway.id === x)\<close>\<close>
  "someGateway gateways x = list_ex (\<lambda>gateway. gw_id gateway = x) gateways"

definition requestedGateway :: "string option \<Rightarrow> string" where
  \<comment> \<open>\<^verbatim>\<open>searchParams.get("gateway")?.trim() ?? ""\<close>\<close>
  "requestedGateway q = (case q of None \<Rightarrow> [] | Some v \<Rightarrow> trim v)"

definition CatalogModelForm_currentItem :: "form_mode \<Rightarrow> LlmModelRead list \<Rightarrow> LlmModelRead option" where
  "CatalogModelForm_currentItem mode models =
     (case mode of
        Create \<Rightarrow> None
      | Edit modelIdParam \<Rightarrow>
          if \<not> truthy modelIdParam then None
          else find (\<lambda>item. lm_id item = modelIdParam) models)"

definition CatalogModelForm_gatewayId ::
  "form_mode \<Rightarrow> GatewayRead list \<Rightarrow> LlmModelRead list \<Rightarrow> string option \<Rightarrow> string option \<Rightarrow> string" where
  "CatalogModelForm_gatewayId mode gateways models gatewayDraft query =
     (case gateways of
        [] \<Rightarrow> []
      | first # _ \<Rightarrow>
          if isEdit mode \<and>
             (case CatalogModelForm_currentItem mode models of
                None \<Rightarrow> False
              | Some currentItem \<Rightarrow> truthy (lm_gateway_id currentItem))
            then lm_gateway_id (the (CatalogModelForm_currentItem mode models))
          else if truthy_opt gatewayDraft \<and> someGateway gateways (the gatewayDraft)
            then the gatewayDraft
          else if truthy (requestedGateway query) \<and> someGateway gateways (requestedGateway query)
            then requestedGateway query
          else gw_id first)"

definition ProviderAuthForm_currentItem ::
  "form_mode \<Rightarrow> LlmProviderAuthRead list \<Rightarrow> LlmProviderAuthRead option" where
  "ProviderAuthForm_currentItem mode providerAuthItems =
     (case mode of
        Create \<Rightarrow> None
      | Edit providerAuthId \<Rightarrow>
          if \<not> truthy providerAuthId then None
          else find (\<lambda>item. pa_id item = providerAuthId) providerAuthItems)"

definition ProviderAuthForm_gatewayId ::
  "form_mode \<Rightarrow> GatewayRead list \<Rightarrow> LlmProviderAuthRead list \<Rightarrow> string option \<Rightarrow> string option \<Rightarrow> string" where
  "ProviderAuthForm_gatewayId mode gateways providerAuthItems gatewayDraft query =
     (case gateways of
        [] \<Rightarrow> []
      | first # _ \<Rightarrow>
          if isEdit mode \<and>
             (case ProviderAuthForm_currentItem mode providerAuthItems of
                None \<Rightarrow> False
              | Some currentItem \<Rightarrow> truthy (pa_gateway_id currentItem))
            then pa_gateway_id (the (ProviderAuthForm_currentItem mode providerAuthItems))
          else if truthy_opt gatewayDraft \<and> someGateway gateways (the gatewayDraft)
            then the gatewayDraft
          else if truthy (requestedGateway query) \<and> someGateway gateways (requestedGateway query)
            then requestedGateway query
          else gw_id first)"

definition ModelsSyncPage_activeGatewayId :: "GatewayRead list \<Rightarrow> string option \<Rightarrow> string" where
  "ModelsSyncPage_activeGatewayId gateways activeGatewayDraft =
     (if truthy_opt activeGatewayDraft \<and> someGateway gateways (the activeGatewayDraft)
        then the activeGatewayDraft
      else (case gateways of [] \<Rightarrow> [] | first # _ \<Rightarrow> gw_id first))"

section \<open>Routing: the table of \<open>ModelsWorkspace\<close>\<close>

datatype RoutingStatus = Override | Default | Unconfigured


definition agentRoleLabel :: "AgentRead \<Rightarrow> string option" where
  "agentRoleLabel agent =
     (case ag_role agent of
        None \<Rightarrow> None
      | Some role \<Rightarrow> if truthy (trim role) then Some (trim role) else None)"

definition newMap :: "('a \<Rightarrow> 'k) \<Rightarrow> 'a list \<Rightarrow> ('k \<rightharpoonup> 'a)" where
  \<comment> \<open>\<^verbatim>\<open>new Map(xs.map((x) => [key(x), x]))\<close>: a later entry replaces an earlier one\<close>
  "newMap key xs = foldl (\<lambda>m x. m(key x \<mapsto> x)) Map.empty xs"

definition grouped :: "LlmModelRead list \<Rightarrow> (string \<rightharpoonup> LlmModelRead list)" where
  \<comment> \<open>the first loop of \<^verbatim>\<open>gatewayDefaultById\<close>: one bucket per gateway id, in fetched order\<close>
  "grouped models =
     foldl (\<lambda>g model.
              g(lm_gateway_id model \<mapsto>
                  (case g (lm_gateway_id model) of None \<Rightarrow> [] | Some bucket \<Rightarrow> bucket) @ [model]))
           Map.empty models"

definition gatewayDefaultById ::
  "string comparator \<Rightarrow> LlmModelRead list \<Rightarrow> (string \<rightharpoonup> LlmModelRead)" where
  "gatewayDefaultById lc models gatewayId =
     (case grouped models gatewayId of
        None \<Rightarrow> None
      | Some bucket \<Rightarrow>
          (case array_sort (\<lambda>a b. lc (lm_created_at a) (lm_created_at b)) bucket of
             [] \<Rightarrow> None
           | first # _ \<Rightarrow> Some first))"

record RoutingRow =
  rr_agent :: AgentRead
  rr_board :: "BoardRead option"
  rr_role :: string
  rr_primary :: "LlmModelRead option"
  rr_effectivePrimary :: "LlmModelRead option"
  rr_fallbackCount :: nat
  rr_gatewayName :: string
  rr_status :: RoutingStatus

definition gatewayNameOf :: "GatewayRead list \<Rightarrow> string \<Rightarrow> string" where
  \<comment> \<open>\<^verbatim>\<open>gatewaysById.get(id)?.name ?? "Unknown gateway"\<close>\<close>
  "gatewayNameOf gateways gatewayId =
     (case newMap gw_id gateways gatewayId of
        None \<Rightarrow> ''Unknown gateway''
      | Some gateway \<Rightarrow> gw_name gateway)"

definition routingRow ::
  "string comparator \<Rightarrow> GatewayRead list \<Rightarrow> BoardRead list \<Rightarrow> LlmModelRead list \<Rightarrow> AgentRead
     \<Rightarrow> RoutingRow" where
  "routingRow lc gateways boards models agent =
     (let primary =
            (if truthy_opt (ag_primary_model_id agent)
               then newMap lm_id models (the (ag_primary_model_id agent))
             else None);
          defaultPrimary = gatewayDefaultById lc models (ag_gateway_id agent);
          effectivePrimary = (case primary of Some m \<Rightarrow> Some m | None \<Rightarrow> defaultPrimary);
          board =
            (if truthy_opt (ag_board_id agent)
               then newMap bd_id boards (the (ag_board_id agent))
             else None);
          role = (case agentRoleLabel agent of Some r \<Rightarrow> r | None \<Rightarrow> ''Unspecified'');
          fallbackCount =
            length (case ag_fallback_model_ids agent of Some ids \<Rightarrow> ids | None \<Rightarrow> []);
          status =
            (if primary \<noteq> None then Override
             else if effectivePrimary \<noteq> None then Default
             else Unconfigured)
      in \<lparr> rr_agent = agent, rr_board = board, rr_role = role, rr_primary = primary,
           rr_effectivePrimary = effectivePrimary, rr_fallbackCount = fallbackCount,
           rr_gatewayName = gatewayNameOf gateways (ag_gateway_id agent),
           rr_status = status \<rparr>)"


section \<open>Routing: the edit page \<open>AgentRoutingEditPage\<close>\<close>

record AgentRoutingEditPage_state =
  primaryModelDraft :: "string option"
  fallbackModelDraft :: "string list option"
  routingError :: "string option"

text \<open>What the page has fetched, and the agent id it was mounted with.\<close>

record AgentRoutingEditPage_data =
  ed_agentId :: string
  ed_agents :: "AgentRead list"
  ed_models :: "LlmModelRead list"

definition ed_agent :: "AgentRoutingEditPage_data \<Rightarrow> AgentRead option" where
  "ed_agent d = find (\<lambda>item. ag_id item = ed_agentId d) (ed_agents d)"

definition modelsForGateway :: "AgentRoutingEditPage_data \<Rightarrow> LlmModelRead list" where
  "modelsForGateway d =
     (case ed_agent d of
        None \<Rightarrow> []
      | Some agent \<Rightarrow>
          if truthy (ag_gateway_id agent)
            then filter (\<lambda>model. lm_gateway_id model = ag_gateway_id agent) (ed_models d)
          else [])"

definition modelsById :: "AgentRoutingEditPage_data \<Rightarrow> (string \<rightharpoonup> LlmModelRead)" where
  "modelsById d = newMap lm_id (modelsForGateway d)"

definition availableModelIds :: "AgentRoutingEditPage_data \<Rightarrow> string set" where
  "availableModelIds d = set (map lm_id (modelsForGateway d))"

definition defaultPrimaryModel :: "AgentRoutingEditPage_data \<Rightarrow> LlmModelRead option" where
  \<comment> \<open>\<^verbatim>\<open>modelsForGateway[0] ?? null\<close>\<close>
  "defaultPrimaryModel d = (case modelsForGateway d of [] \<Rightarrow> None | first # _ \<Rightarrow> Some first)"

definition baselinePrimaryModelId :: "AgentRoutingEditPage_data \<Rightarrow> string" where
  "baselinePrimaryModelId d =
     (case ed_agent d of
        None \<Rightarrow> []
      | Some agent \<Rightarrow> (case ag_primary_model_id agent of None \<Rightarrow> [] | Some p \<Rightarrow> p))"

definition baselineFallbackModelIds :: "AgentRoutingEditPage_data \<Rightarrow> string list" where
  "baselineFallbackModelIds d =
     (case ed_agent d of
        None \<Rightarrow> []
      | Some agent \<Rightarrow> (case ag_fallback_model_ids agent of None \<Rightarrow> [] | Some ids \<Rightarrow> ids))"

definition primaryModelIdCandidate ::
  "AgentRoutingEditPage_data \<Rightarrow> AgentRoutingEditPage_state \<Rightarrow> string" where
  "primaryModelIdCandidate d st =
     (case primaryModelDraft st of Some v \<Rightarrow> v | None \<Rightarrow> baselinePrimaryModelId d)"

definition primaryModelId :: "AgentRoutingEditPage_data \<Rightarrow> AgentRoutingEditPage_state \<Rightarrow> string" where
  "primaryModelId d st =
     (if primaryModelIdCandidate d st \<in> availableModelIds d then primaryModelIdCandidate d st
      else [])"

fun indexOf :: "'a list \<Rightarrow> 'a \<Rightarrow> int" where
  \<comment> \<open>\<^verbatim>\<open>Array.prototype.indexOf\<close>: the first position of the value, \<open>-1\<close> when absent\<close>
  "indexOf [] v = -1"
| "indexOf (x # xs) v = (if x = v then 0 else (let i = indexOf xs v in if i < 0 then -1 else i + 1))"

definition filterIndexed :: "('a \<Rightarrow> nat \<Rightarrow> 'a list \<Rightarrow> bool) \<Rightarrow> 'a list \<Rightarrow> 'a list" where
  \<comment> \<open>\<^verbatim>\<open>list.filter((value, index, list) => ...)\<close>\<close>
  "filterIndexed p list =
     map fst (filter (\<lambda>(v, index). p v index list) (zip list [0..<length list]))"

definition fallbackModelIds ::
  "AgentRoutingEditPage_data \<Rightarrow> AgentRoutingEditPage_state \<Rightarrow> string list" where
  "fallbackModelIds d st =
     (let source = (case fallbackModelDraft st of Some ids \<Rightarrow> ids | None \<Rightarrow> baselineFallbackModelIds d)
      in filterIndexed
           (\<lambda>modelIdValue index list.
              modelIdValue \<noteq> primaryModelId d st \<and>
              modelIdValue \<in> availableModelIds d \<and>
              indexOf list modelIdValue = int index)
           source)"

definition selectedPrimary ::
  "AgentRoutingEditPage_data \<Rightarrow> AgentRoutingEditPage_state \<Rightarrow> LlmModelRead option" where
  "selectedPrimary d st =
     (if truthy (primaryModelId d st) then modelsById d (primaryModelId d st) else None)"

definition effectivePrimaryModel ::
  "AgentRoutingEditPage_data \<Rightarrow> AgentRoutingEditPage_state \<Rightarrow> LlmModelRead option" where
  "effectivePrimaryModel d st =
     (case selectedPrimary d st of Some m \<Rightarrow> Some m | None \<Rightarrow> defaultPrimaryModel d)"

definition editStatus :: "AgentRoutingEditPage_data \<Rightarrow> AgentRoutingEditPage_state \<Rightarrow> RoutingStatus" where
  \<comment> \<open>the page's \<^verbatim>\<open>status\<close>\<close>
  "editStatus d st =
     (if truthy (primaryModelId d st) then Override
      else if effectivePrimaryModel d st \<noteq> None then Default
      else Unconfigured)"

record SearchableSelectOption =
  so_value :: string
  so_label :: string

definition modelOptionLabel :: "LlmModelRead \<Rightarrow> string" where
  "modelOptionLabel model = lm_display_name model @ '' ('' @ lm_model_id model @ '')''"

definition modelOptions :: "AgentRoutingEditPage_data \<Rightarrow> SearchableSelectOption list" where
  "modelOptions d =
     map (\<lambda>model. \<lparr> so_value = lm_id model, so_label = modelOptionLabel model \<rparr>) (modelsForGateway d)"

record AgentUpdateRequest =
  req_agentId :: string
  req_force :: bool
  req_primary_model_id :: "string option"
  req_fallback_model_ids :: "string list option"

definition handleSave ::
  "AgentRoutingEditPage_data \<Rightarrow> AgentRoutingEditPage_state
     \<Rightarrow> AgentRoutingEditPage_state \<times> AgentUpdateRequest option" where
  "handleSave d st =
     (case ed_agent d of
        None \<Rightarrow> (st\<lparr>routingError := Some ''Agent not found.''\<rparr>, None)
      | Some agent \<Rightarrow>
          if truthy (primaryModelId d st) \<and> primaryModelId d st \<notin> availableModelIds d
            then (st\<lparr>routingError := Some ''Primary model must belong to this gateway catalog.''\<rparr>,
                  None)
          else
            (st\<lparr>routingError := None\<rparr>,
             Some \<lparr> req_agentId = ag_id agent, req_force = True,
                    req_primary_model_id =
                      (if truthy (primaryModelId d st) then Some (primaryModelId d st) else None),
                    req_fallback_model_ids =
                      (if length (fallbackModelIds d st) > 0 then Some (fallbackModelIds d st)
                       else None) \<rparr>))"

text \<open>The user's actions on the edit page, each with the state updates of its handler.\<close>

datatype routing_event =
    SelectPrimary string
  | CheckFallback string
  | UncheckFallback string
  | Revert
  | ClearOverride
  | Save

definition routingStep ::
  "AgentRoutingEditPage_data \<Rightarrow> AgentRoutingEditPage_state \<Rightarrow> routing_event
     \<Rightarrow> AgentRoutingEditPage_state" where
  "routingStep d st ev =
     (let source = (case fallbackModelDraft st of Some ids \<Rightarrow> ids | None \<Rightarrow> baselineFallbackModelIds d)
      in case ev of
           SelectPrimary v \<Rightarrow>
             st\<lparr>primaryModelDraft := Some v,
                fallbackModelDraft := Some (filter (\<lambda>item. item \<noteq> v) source)\<rparr>
         | CheckFallback v \<Rightarrow>
             st\<lparr>fallbackModelDraft := Some (if v \<in> set source then source else source @ [v])\<rparr>
         | UncheckFallback v \<Rightarrow>
             st\<lparr>fallbackModelDraft := Some (filter (\<lambda>x. x \<noteq> v) source)\<rparr>
         | Revert \<Rightarrow>
             st\<lparr>routingError := None, primaryModelDraft := None, fallbackModelDraft := None\<rparr>
         | ClearOverride \<Rightarrow>
             st\<lparr>routingError := None, primaryModelDraft := Some [], fallbackModelDraft := Some []\<rparr>
         | Save \<Rightarrow> fst (handleSave d st))"

definition initialRoutingState :: AgentRoutingEditPage_state where
  "initialRoutingState =
     \<lparr> primaryModelDraft = None, fallbackModelDraft = None, routingError = None \<rparr>"

section \<open>The sorted tables of \<open>ModelsWorkspace\<close>\<close>

datatype ProviderSortKey = PK_gateway | PK_provider | PK_config_path | PK_secret | PK_updated

datatype ModelSortKey =
  MK_gateway | MK_display_name | MK_model_id | MK_provider | MK_settings | MK_updated

datatype RoutingSortKey = RK_agent | RK_role | RK_gateway | RK_board | RK_primary | RK_status

datatype SortDirection = Asc | Desc














section \<open>The summary counts of \<open>ModelsSyncPage\<close>\<close>

definition providerCount :: "string \<Rightarrow> LlmProviderAuthRead list \<Rightarrow> nat" where
  "providerCount activeGatewayId providerAuth =
     length (filter (\<lambda>item. pa_gateway_id item = activeGatewayId) providerAuth)"

definition modelCount :: "string \<Rightarrow> LlmModelRead list \<Rightarrow> nat" where
  "modelCount activeGatewayId models =
     length (filter (\<lambda>item. lm_gateway_id item = activeGatewayId) models)"

definition agentCount :: "string \<Rightarrow> AgentRead list \<Rightarrow> nat" where
  "agentCount activeGatewayId agents =
     length (filter (\<lambda>item. ag_gateway_id item = activeGatewayId) agents)"

definition primaryOverrideCount :: "string \<Rightarrow> AgentRead list \<Rightarrow> nat" where
  "primaryOverrideCount activeGatewayId agents =
     length (filter (\<lambda>item. ag_gateway_id item = activeGatewayId \<and>
                            truthy_opt (ag_primary_model_id item)) agents)"

section \<open>The catalog model form\<close>

record CatalogModelForm_state =
  cm_gatewayDraft :: "string option"
  cm_providerDraft :: "string option"
  cm_modelIdDraft :: "string option"
  cm_displayNameDraft :: "string option"
  cm_settingsDraft :: "string option"
  cm_error :: "string option"

text \<open>The props, the fetched lists and the \<open>?gateway\<close> query parameter of the form.\<close>

record CatalogModelForm_data =
  cm_mode :: form_mode
  cm_gateways :: "GatewayRead list"
  cm_models :: "LlmModelRead list"
  cm_query :: "string option"

definition cm_gatewayId :: "CatalogModelForm_data \<Rightarrow> CatalogModelForm_state \<Rightarrow> string" where
  "cm_gatewayId d st =
     CatalogModelForm_gatewayId (cm_mode d) (cm_gateways d) (cm_models d) (cm_gatewayDraft st)
       (cm_query d)"

definition cm_provider :: "CatalogModelForm_data \<Rightarrow> CatalogModelForm_state \<Rightarrow> string" where
  "cm_provider d st =
     (case cm_providerDraft st of
        Some v \<Rightarrow> v
      | None \<Rightarrow>
          if isEdit (cm_mode d)
            then (case CatalogModelForm_currentItem (cm_mode d) (cm_models d) of
                    Some item \<Rightarrow> lm_provider item | None \<Rightarrow> [])
          else [])"

definition cm_modelId :: "CatalogModelForm_data \<Rightarrow> CatalogModelForm_state \<Rightarrow> string" where
  "cm_modelId d st =
     (case cm_modelIdDraft st of
        Some v \<Rightarrow> v
      | None \<Rightarrow>
          if isEdit (cm_mode d)
            then (case CatalogModelForm_currentItem (cm_mode d) (cm_models d) of
                    Some item \<Rightarrow> lm_model_id item | None \<Rightarrow> [])
          else [])"

definition cm_displayName :: "CatalogModelForm_data \<Rightarrow> CatalogModelForm_state \<Rightarrow> string" where
  "cm_displayName d st =
     (case cm_displayNameDraft st of
        Some v \<Rightarrow> v
      | None \<Rightarrow>
          if isEdit (cm_mode d)
            then (case CatalogModelForm_currentItem (cm_mode d) (cm_models d) of
                    Some item \<Rightarrow> lm_display_name item | None \<Rightarrow> [])
          else [])"

text \<open>\<^verbatim>\<open>JSON.stringify(settings, null, 2)\<close> and \<^verbatim>\<open>JSON.parse\<close> are parameters; a parse that
  throws is \<open>None\<close>.\<close>

definition cm_settingsText ::
  "((string \<times> json) list \<Rightarrow> string) \<Rightarrow> CatalogModelForm_data \<Rightarrow> CatalogModelForm_state \<Rightarrow> string" where
  "cm_settingsText jsonStringify d st =
     (case cm_settingsDraft st of
        Some v \<Rightarrow> v
      | None \<Rightarrow>
          if isEdit (cm_mode d)
            then (case CatalogModelForm_currentItem (cm_mode d) (cm_models d) of
                    Some item \<Rightarrow>
                      (case lm_settings item of Some kvs \<Rightarrow> jsonStringify kvs | None \<Rightarrow> [])
                  | None \<Rightarrow> [])
          else [])"

definition parseSettings :: "(string \<Rightarrow> json option) \<Rightarrow> string \<Rightarrow> (string \<times> json) list option" where
  \<comment> \<open>the \<^verbatim>\<open>try\<close> block of \<^verbatim>\<open>handleSubmit\<close>; \<open>None\<close> when the \<^verbatim>\<open>catch\<close> is taken\<close>
  "parseSettings jsonParse normalizedSettings =
     (case jsonParse normalizedSettings of
        None \<Rightarrow> None \<comment> \<open>\<^verbatim>\<open>JSON.parse\<close> throws\<close>
      | Some JNull \<Rightarrow> None \<comment> \<open>\<^verbatim>\<open>!parsed\<close>\<close>
      | Some (JBool _) \<Rightarrow> None \<comment> \<open>\<^verbatim>\<open>typeof parsed\<close> is not \<open>object\<close>\<close>
      | Some (JNum _ _) \<Rightarrow> None
      | Some (JStr _) \<Rightarrow> None
      | Some (JArr _) \<Rightarrow> None \<comment> \<open>\<^verbatim>\<open>Array.isArray(parsed)\<close>\<close>
      | Some (JObj kvs) \<Rightarrow> Some kvs)"

record LlmModelCreate =
  mc_gateway_id :: string
  mc_provider :: string
  mc_model_id :: string
  mc_display_name :: string
  mc_settings :: "(string \<times> json) list option"

record LlmModelUpdate =
  mu_provider :: string
  mu_model_id :: string
  mu_display_name :: string
  mu_settings :: "(string \<times> json) list option"

datatype catalog_request =
    CreateModel LlmModelCreate
  | UpdateModel string LlmModelUpdate

definition CatalogModelForm_handleSubmit ::
  "(string \<Rightarrow> json option) \<Rightarrow> ((string \<times> json) list \<Rightarrow> string) \<Rightarrow> CatalogModelForm_data
     \<Rightarrow> CatalogModelForm_state \<Rightarrow> CatalogModelForm_state \<times> catalog_request option" where
  "CatalogModelForm_handleSubmit jsonParse jsonStringify d st =
     (let gatewayId = cm_gatewayId d st;
          normalizedProvider = toLowerCase (trim (cm_provider d st));
          normalizedModelId = trim (cm_modelId d st);
          normalizedDisplayName = trim (cm_displayName d st);
          normalizedSettings = trim (cm_settingsText jsonStringify d st)
      in
      if \<not> truthy gatewayId then (st\<lparr>cm_error := Some ''Select a gateway first.''\<rparr>, None)
      else if \<not> truthy normalizedProvider \<or> \<not> truthy normalizedModelId \<or>
              \<not> truthy normalizedDisplayName
        then (st\<lparr>cm_error := Some ''Provider, model ID, and display name are required.''\<rparr>, None)
      else if truthy normalizedSettings \<and> parseSettings jsonParse normalizedSettings = None
        then (st\<lparr>cm_error := Some ''Settings must be a valid JSON object.''\<rparr>, None)
      else
        (let settings =
               (if truthy normalizedSettings then parseSettings jsonParse normalizedSettings
                else if isEdit (cm_mode d) then Some []
                else None)
         in case cm_mode d of
              Create \<Rightarrow>
                (st\<lparr>cm_error := None\<rparr>,
                 Some (CreateModel
                   \<lparr> mc_gateway_id = gatewayId, mc_provider = normalizedProvider,
                     mc_model_id = normalizedModelId, mc_display_name = normalizedDisplayName,
                     mc_settings = settings \<rparr>))
            | Edit modelIdParam \<Rightarrow>
                if \<not> truthy modelIdParam
                  then (st\<lparr>cm_error := Some ''Missing model identifier.''\<rparr>, None)
                else
                  (st\<lparr>cm_error := None\<rparr>,
                   Some (UpdateModel modelIdParam
                     \<lparr> mu_provider = normalizedProvider, mu_model_id = normalizedModelId,
                       mu_display_name = normalizedDisplayName, mu_settings = settings \<rparr>))))"

section \<open>The provider auth form\<close>

record ProviderAuthForm_state =
  pf_gatewayDraft :: "string option"
  pf_providerDraft :: "string option"
  pf_configPathDraft :: "string option"
  pf_secret :: string
  pf_error :: "string option"

record ProviderAuthForm_data =
  pf_mode :: form_mode
  pf_gateways :: "GatewayRead list"
  pf_items :: "LlmProviderAuthRead list"
  pf_query :: "string option"

definition pf_gatewayId :: "ProviderAuthForm_data \<Rightarrow> ProviderAuthForm_state \<Rightarrow> string" where
  "pf_gatewayId d st =
     ProviderAuthForm_gatewayId (pf_mode d) (pf_gateways d) (pf_items d) (pf_gatewayDraft st)
       (pf_query d)"

definition pf_provider :: "ProviderAuthForm_data \<Rightarrow> ProviderAuthForm_state \<Rightarrow> string" where
  "pf_provider d st =
     (case pf_providerDraft st of
        Some v \<Rightarrow> v
      | None \<Rightarrow>
          if isEdit (pf_mode d)
            then (case ProviderAuthForm_currentItem (pf_mode d) (pf_items d) of
                    Some item \<Rightarrow> pa_provider item | None \<Rightarrow> [])
          else [])"

definition pf_configPath :: "ProviderAuthForm_data \<Rightarrow> ProviderAuthForm_state \<Rightarrow> string" where
  "pf_configPath d st =
     (case pf_configPathDraft st of
        Some v \<Rightarrow> v
      | None \<Rightarrow>
          if isEdit (pf_mode d)
            then (case ProviderAuthForm_currentItem (pf_mode d) (pf_items d) of
                    Some item \<Rightarrow> pa_config_path item | None \<Rightarrow> [])
          else [])"

record LlmProviderAuthCreate =
  pc_gateway_id :: string
  pc_provider :: string
  pc_config_path :: string
  pc_secret :: string

record LlmProviderAuthUpdate =
  pu_provider :: string
  pu_config_path :: string
  pu_secret :: "string option"

datatype provider_auth_request =
    CreateProviderAuth LlmProviderAuthCreate
  | UpdateProviderAuth string LlmProviderAuthUpdate

definition ProviderAuthForm_handleSubmit ::
  "ProviderAuthForm_data \<Rightarrow> ProviderAuthForm_state
     \<Rightarrow> ProviderAuthForm_state \<times> provider_auth_request option" where
  "ProviderAuthForm_handleSubmit d st =
     (let gatewayId = pf_gatewayId d st;
          normalizedProvider = toLowerCase (trim (pf_provider d st));
          normalizedConfigPath =
            (if truthy (trim (pf_configPath d st)) then trim (pf_configPath d st)
             else ''providers.'' @ normalizedProvider @ ''.apiKey'')
      in
      if \<not> truthy gatewayId then (st\<lparr>pf_error := Some ''Select a gateway first.''\<rparr>, None)
      else if \<not> truthy normalizedProvider
        then (st\<lparr>pf_error := Some ''Provider is required.''\<rparr>, None)
      else
        (case pf_mode d of
           Create \<Rightarrow>
             (let normalizedSecret = trim (pf_secret st) in
              if \<not> truthy normalizedSecret
                then (st\<lparr>pf_error := Some ''Secret is required.''\<rparr>, None)
              else
                (st\<lparr>pf_error := None\<rparr>,
                 Some (CreateProviderAuth
                   \<lparr> pc_gateway_id = gatewayId, pc_provider = normalizedProvider,
                     pc_config_path = normalizedConfigPath, pc_secret = normalizedSecret \<rparr>)))
         | Edit providerAuthId \<Rightarrow>
             if \<not> truthy providerAuthId
               then (st\<lparr>pf_error := Some ''Missing provider auth identifier.''\<rparr>, None)
             else
               (st\<lparr>pf_error := None\<rparr>,
                Some (UpdateProviderAuth providerAuthId
                  \<lparr> pu_provider = normalizedProvider, pu_config_path = normalizedConfigPath,
                    pu_secret =
                      (if truthy (trim (pf_secret st)) then Some (trim (pf_secret st))
                       else None) \<rparr>))))"

section \<open>Mutations and their error handlers\<close>

text \<open>
  Each page hands its mutation hook an options object.  \<open>onError\<close> is the handler the source
  gives, \<open>None\<close> where it gives none; \<open>retry\<close> is the retry count the source configures,
  \<open>None\<close> where it configures none (the data-fetching library then retries a mutation zero
  times).  On a failed request the library calls the handler, if there is one.
\<close>

record ApiError =
  message :: string

record 's mutationOptions =
  onError :: "(ApiError \<Rightarrow> 's \<Rightarrow> 's) option"
  retry :: "nat option"

definition retriesOf :: "'s mutationOptions \<Rightarrow> nat" where
  "retriesOf opts = (case retry opts of None \<Rightarrow> 0 | Some n \<Rightarrow> n)"

definition afterFailure :: "'s mutationOptions \<Rightarrow> ApiError \<Rightarrow> 's \<Rightarrow> 's" where
  "afterFailure opts err st = (case onError opts of None \<Rightarrow> st | Some handler \<Rightarrow> handler err st)"

definition messageOr :: "ApiError \<Rightarrow> string \<Rightarrow> string" where
  \<comment> \<open>\<^verbatim>\<open>err.message || fallback\<close>\<close>
  "messageOr err fallback = (if truthy (message err) then message err else fallback)"

definition CatalogModelForm_createMutation :: "CatalogModelForm_state mutationOptions" where
  "CatalogModelForm_createMutation =
     \<lparr> onError = Some (\<lambda>err st. st\<lparr>cm_error := Some (messageOr err ''Unable to create model.'')\<rparr>),
       retry = None \<rparr>"

definition CatalogModelForm_updateMutation :: "CatalogModelForm_state mutationOptions" where
  "CatalogModelForm_updateMutation =
     \<lparr> onError = Some (\<lambda>err st. st\<lparr>cm_error := Some (messageOr err ''Unable to update model.'')\<rparr>),
       retry = None \<rparr>"

definition ProviderAuthForm_createMutation :: "ProviderAuthForm_state mutationOptions" where
  "ProviderAuthForm_createMutation =
     \<lparr> onError =
         Some (\<lambda>err st. st\<lparr>pf_error := Some (messageOr err ''Unable to create provider auth entry.'')\<rparr>),
       retry = None \<rparr>"

definition ProviderAuthForm_updateMutation :: "ProviderAuthForm_state mutationOptions" where
  "ProviderAuthForm_updateMutation =
     \<lparr> onError =
         Some (\<lambda>err st. st\<lparr>pf_error := Some (messageOr err ''Unable to update provider auth entry.'')\<rparr>),
       retry = None \<rparr>"

definition updateAgentMutation :: "AgentRoutingEditPage_state mutationOptions" where
  "updateAgentMutation =
     \<lparr> onError =
         Some (\<lambda>updateError st.
                 st\<lparr>routingError := Some (messageOr updateError ''Unable to save agent routing.'')\<rparr>),
       retry = None \<rparr>"

record ModelsSyncPage_state =
  activeGatewayDraft :: "string option"
  syncMessage :: "string option"

definition syncMutation :: "ModelsSyncPage_state mutationOptions" where
  "syncMutation =
     \<lparr> onError = Some (\<lambda>error st. st\<lparr>syncMessage := Some (messageOr error ''Gateway sync failed.'')\<rparr>),
       retry = None \<rparr>"

definition pullMutation :: "ModelsSyncPage_state mutationOptions" where
  "pullMutation =
     \<lparr> onError = Some (\<lambda>error st. st\<lparr>syncMessage := Some (messageOr error ''Gateway pull failed.'')\<rparr>),
       retry = None \<rparr>"

text \<open>\<open>ModelsWorkspace\<close> keeps the six sort settings and nothing else; its two delete
  mutations are given an \<^verbatim>\<open>onSuccess\<close> handler only.\<close>

record ModelsWorkspace_state =
  providerSortKey :: ProviderSortKey
  providerSortDirection :: SortDirection
  modelSortKey :: ModelSortKey
  modelSortDirection :: SortDirection
  routingSortKey :: RoutingSortKey
  routingSortDirection :: SortDirection

definition deleteProviderMutation :: "ModelsWorkspace_state mutationOptions" where
  "deleteProviderMutation = \<lparr> onError = None, retry = None \<rparr>"

definition deleteModelMutation :: "ModelsWorkspace_state mutationOptions" where
  "deleteModelMutation = \<lparr> onError = None, retry = None \<rparr>"

definition initialWorkspaceState :: ModelsWorkspace_state where
  "initialWorkspaceState =
     \<lparr> providerSortKey = PK_gateway, providerSortDirection = Asc,
       modelSortKey = MK_gateway, modelSortDirection = Asc,
       routingSortKey = RK_agent, routingSortDirection = Asc \<rparr>"

section \<open>Definitions that follow the wording of the specification\<close>

text \<open>
  The gateway resolution as the specification words it: nothing for an empty gateway list,
  else the edited item's gateway when present, else a draft naming a fetched gateway, else
  a query parameter naming a fetched gateway, else the first fetched gateway.
\<close>

definition spec_resolvedGateway ::
  "GatewayRead list \<Rightarrow> string option \<Rightarrow> string option \<Rightarrow> string option \<Rightarrow> string" where
  "spec_resolvedGateway gateways itemGateway draft query =
     (if gateways = [] then []
      else if truthy_opt itemGateway then the itemGateway
      else if truthy_opt draft \<and> the draft \<in> gw_id ` set gateways then the draft
      else if truthy_opt query \<and> the query \<in> gw_id ` set gateways then the query
      else gw_id (hd gateways))"

text \<open>The ids of the catalog models that belong to the gateway of the agent being edited.\<close>

definition spec_gatewayCatalogIds :: "AgentRoutingEditPage_data \<Rightarrow> string set" where
  "spec_gatewayCatalogIds d =
     {lm_id m | m. m \<in> set (ed_models d) \<and>
                   (\<exists>agent. ed_agent d = Some agent \<and> lm_gateway_id m = ag_gateway_id agent)}"











text \<open>
  Routing as the specification words it.  A primary model id resolves in a catalog when it
  is set, non-empty and the id of a model of that catalog.  The catalog of a gateway is the
  fetched models with that gateway id; the edit page takes it to be empty for an agent
  without gateway id.  A model is earliest-created in a catalog when no model of the catalog
  compares smaller by \<open>created_at\<close>.
\<close>

definition spec_resolves :: "LlmModelRead list \<Rightarrow> string option \<Rightarrow> bool" where
  "spec_resolves catalog primary = (\<exists>p. primary = Some p \<and> p \<noteq> [] \<and> p \<in> lm_id ` set catalog)"

definition spec_gatewayCatalog :: "LlmModelRead list \<Rightarrow> string \<Rightarrow> LlmModelRead list" where
  "spec_gatewayCatalog models gatewayId = filter (\<lambda>m. lm_gateway_id m = gatewayId) models"

definition spec_editCatalog :: "LlmModelRead list \<Rightarrow> string \<Rightarrow> LlmModelRead list" where
  "spec_editCatalog models gatewayId = (if gatewayId = [] then [] else spec_gatewayCatalog models gatewayId)"

definition spec_earliestCreated :: "string comparator \<Rightarrow> LlmModelRead list \<Rightarrow> LlmModelRead \<Rightarrow> bool" where
  "spec_earliestCreated lc catalog m =
     (m \<in> set catalog \<and> (\<forall>m' \<in> set catalog. lc (lm_created_at m) (lm_created_at m') \<le> 0))"

definition spec_status :: "bool \<Rightarrow> bool \<Rightarrow> RoutingStatus" where
  "spec_status resolves hasDefault =
     (if resolves then Override else if hasDefault then Default else Unconfigured)"

text \<open>
  When the catalog model form may be submitted, as the specification words it: a gateway is
  resolved, the trimmed provider, model id and display name are non-empty, and the settings
  text is blank or parses as a JSON object.
\<close>

definition spec_catalogSubmittable ::
  "(string \<Rightarrow> json option) \<Rightarrow> ((string \<times> json) list \<Rightarrow> string) \<Rightarrow> CatalogModelForm_data
     \<Rightarrow> CatalogModelForm_state \<Rightarrow> bool" where
  "spec_catalogSubmittable jsonParse jsonStringify d st \<longleftrightarrow>
     cm_gatewayId d st \<noteq> [] \<and>
     trim (cm_provider d st) \<noteq> [] \<and> trim (cm_modelId d st) \<noteq> [] \<and>
     trim (cm_displayName d st) \<noteq> [] \<and>
     (trim (cm_settingsText jsonStringify d st) = [] \<or>
      (\<exists>kvs. jsonParse (trim (cm_settingsText jsonStringify d st)) = Some (JObj kvs)))"

section \<open>Example data\<close>

definition exampleGateways :: "GatewayRead list" where
  "exampleGateways =
     [\<lparr> gw_id = ''g1'', gw_name = ''Alpha'' \<rparr>, \<lparr> gw_id = ''g2'', gw_name = ''beta'' \<rparr>]"

definition exampleModels :: "LlmModelRead list" where
  "exampleModels =
     [\<lparr> lm_id = ''m1'', lm_gateway_id = ''g1'', lm_provider = ''openai'', lm_model_id = ''gpt'',
        lm_display_name = ''GPT'', lm_settings = None,
        lm_created_at = ''2025-02-01'', lm_updated_at = ''2025-02-01'' \<rparr>,
      \<lparr> lm_id = ''m2'', lm_gateway_id = ''g1'', lm_provider = ''anthropic'', lm_model_id = ''claude'',
        lm_display_name = ''Claude'', lm_settings = Some [],
        lm_created_at = ''2025-01-01'', lm_updated_at = ''2025-03-01'' \<rparr>,
      \<lparr> lm_id = ''m3'', lm_gateway_id = ''g2'', lm_provider = ''openai'', lm_model_id = ''mini'',
        lm_display_name = ''Mini'', lm_settings = None,
        lm_created_at = ''2025-01-15'', lm_updated_at = ''2025-01-15'' \<rparr>]"

definition exampleAgent :: "string option \<Rightarrow> string list option \<Rightarrow> AgentRead" where
  "exampleAgent primary fallbacks =
     \<lparr> ag_id = ''a1'', ag_name = ''Lead'', ag_gateway_id = ''g1'', ag_board_id = None,
       ag_primary_model_id = primary, ag_fallback_model_ids = fallbacks, ag_role = None \<rparr>"

definition exampleData :: "string option \<Rightarrow> string list option \<Rightarrow> AgentRoutingEditPage_data" where
  "exampleData primary fallbacks =
     \<lparr> ed_agentId = ''a1'', ed_agents = [exampleAgent primary fallbacks], ed_models = exampleModels \<rparr>"

definition exampleProviderAuth :: "LlmProviderAuthRead list" where
  "exampleProviderAuth =
     [\<lparr> pa_id = ''p1'', pa_gateway_id = ''g1'', pa_provider = ''anthropic'',
        pa_config_path = ''providers.anthropic.apiKey'', pa_has_secret = True,
        pa_updated_at = ''2025-01-01'' \<rparr>,
      \<lparr> pa_id = ''p2'', pa_gateway_id = ''g2'', pa_provider = ''openai'',
        pa_config_path = ''providers.openai.apiKey'', pa_has_secret = False,
        pa_updated_at = ''2025-01-02'' \<rparr>]"

definition initialCatalogFormState :: CatalogModelForm_state where
  "initialCatalogFormState =
     \<lparr> cm_gatewayDraft = None, cm_providerDraft = None, cm_modelIdDraft = None,
       cm_displayNameDraft = None, cm_settingsDraft = None, cm_error = None \<rparr>"

definition initialProviderFormState :: ProviderAuthForm_state where
  "initialProviderFormState =
     \<lparr> pf_gatewayDraft = None, pf_providerDraft = None, pf_configPathDraft = None,
       pf_secret = [], pf_error = None \<rparr>"

definition exampleParse :: "string \<Rightarrow> json option" where
  "exampleParse s =
     (if s = ''{}'' then Some (JObj [])
      else if s = ''[]'' then Some (JArr [])
      else if s = ''null'' then Some JNull
      else None)"

definition exampleStringify :: "(string \<times> json) list \<Rightarrow> string" where
  "exampleStringify kvs = (if kvs = [] then ''{}'' else ''{...}'')"

definition exampleCatalogForm :: "form_mode \<Rightarrow> LlmModelRead list \<Rightarrow> CatalogModelForm_data" where
  "exampleCatalogForm mode models =
     \<lparr> cm_mode = mode, cm_gateways = exampleGateways, cm_models = models, cm_query = None \<rparr>"

definition exampleCatalogDrafts :: "string option \<Rightarrow> CatalogModelForm_state" where
  "exampleCatalogDrafts settings =
     \<lparr> cm_gatewayDraft = None, cm_providerDraft = Some '' OpenAI '', cm_modelIdDraft = Some ''gpt-5 '',
       cm_displayNameDraft = Some ''GPT 5'', cm_settingsDraft = settings, cm_error = None \<rparr>"

definition exampleProviderDrafts :: "string option \<Rightarrow> string \<Rightarrow> ProviderAuthForm_state" where
  "exampleProviderDrafts provider secret =
     \<lparr> pf_gatewayDraft = None, pf_providerDraft = provider, pf_configPathDraft = Some ''  '',
       pf_secret = secret, pf_error = None \<rparr>"

definition exampleProviderForm :: "form_mode \<Rightarrow> ProviderAuthForm_data" where
  "exampleProviderForm mode =
     \<lparr> pf_mode = mode, pf_gateways = exampleGateways, pf_items = exampleProviderAuth,
       pf_query = Some ''g2'' \<rparr>"

section \<open>Properties\<close>

lemma trim_no_break_space: "trim (CHR 0xA0 # '' g2 '' @ [CHR 0xA0]) = ''g2''"
  by code_simp

lemma toLowerCase_latin1:
  "toLowerCase (CHR 0xC9 # ''Ta'') = CHR 0xE9 # ''ta'' \<and> toLowerCase [CHR 0xD7] = [CHR 0xD7]"
  by code_simp

lemma truthy_opt_Some: "truthy_opt v \<Longrightarrow> \<exists>s. v = Some s \<and> s \<noteq> []"
  by (cases v) (simp_all add: truthy_opt_def truthy_def)

lemma someGateway_iff: "someGateway gateways x \<longleftrightarrow> x \<in> gw_id ` set gateways"
  by (auto simp: someGateway_def list_ex_iff)

subsection \<open>Gateway selection\<close>

lemma requestedGateway_truthy:
  "truthy (requestedGateway q) = truthy_opt (map_option trim q)"
  by (cases q) (simp_all add: requestedGateway_def truthy_opt_def truthy_def)

lemma requestedGateway_the:
  "truthy_opt (map_option trim q) \<Longrightarrow> the (map_option trim q) = requestedGateway q"
  by (cases q) (simp_all add: requestedGateway_def truthy_opt_def truthy_def)

lemma CatalogModelForm_gatewayId_spec:
  "CatalogModelForm_gatewayId mode gateways models draft query =
     spec_resolvedGateway gateways
       (map_option lm_gateway_id (CatalogModelForm_currentItem mode models)) draft (map_option trim query)"
proof -
  have "isEdit mode" if "CatalogModelForm_currentItem mode models = Some item" for item
    using that by (cases mode) (simp_all add: CatalogModelForm_currentItem_def isEdit_def)
  then show ?thesis
    by (cases gateways; cases "CatalogModelForm_currentItem mode models")
       (auto simp: CatalogModelForm_gatewayId_def spec_resolvedGateway_def someGateway_iff
          requestedGateway_truthy requestedGateway_the truthy_opt_def)
qed

lemma ProviderAuthForm_gatewayId_spec:
  "ProviderAuthForm_gatewayId mode gateways items draft query =
     spec_resolvedGateway gateways
       (map_option pa_gateway_id (ProviderAuthForm_currentItem mode items)) draft (map_option trim query)"
proof -
  have "isEdit mode" if "ProviderAuthForm_currentItem mode items = Some item" for item
    using that by (cases mode) (simp_all add: ProviderAuthForm_currentItem_def isEdit_def)
  then show ?thesis
    by (cases gateways; cases "ProviderAuthForm_currentItem mode items")
       (auto simp: ProviderAuthForm_gatewayId_def spec_resolvedGateway_def someGateway_iff
          requestedGateway_truthy requestedGateway_the truthy_opt_def)
qed

lemma ModelsSyncPage_activeGatewayId_spec:
  "ModelsSyncPage_activeGatewayId gateways draft = spec_resolvedGateway gateways None draft None"
  by (cases gateways)
     (auto simp: ModelsSyncPage_activeGatewayId_def spec_resolvedGateway_def someGateway_iff
        truthy_opt_def truthy_def split: option.splits)

lemma spec_resolvedGateway_existing:
  "gateways \<noteq> [] \<Longrightarrow> \<not> truthy_opt itemGateway \<Longrightarrow>
   spec_resolvedGateway gateways itemGateway draft query \<in> gw_id ` set gateways"
  by (cases gateways) (auto simp: spec_resolvedGateway_def)

text \<open>
  C10, as stated, fails: in edit mode the gateway id of the edited item is returned as it
  is, also when no fetched gateway has that id.  Here the catalog entry \<open>m3\<close> belongs to
  gateway \<open>g2\<close>, and only \<open>g1\<close> was fetched.
\<close>

theorem gateway_selection_counterexample:
  "CatalogModelForm_gatewayId (Edit ''m3'') [\<lparr> gw_id = ''g1'', gw_name = ''Alpha'' \<rparr>]
      exampleModels None None = ''g2'' \<and>
   ''g2'' \<notin> gw_id ` set [\<lparr> gw_id = ''g1'', gw_name = ''Alpha'' \<rparr>]"
  by (simp add: CatalogModelForm_gatewayId_def CatalogModelForm_currentItem_def exampleModels_def
      truthy_def isEdit_def)

text \<open>
  C10, amended: on the two form pages and on the sync page (which has neither an edited
  item nor a query parameter) the resolved gateway id is the empty string for an empty
  gateway list, else the edited item's non-empty gateway id, else a non-empty draft that
  names a fetched gateway, else the trimmed, non-empty \<open>?gateway\<close> parameter when it names a
  fetched gateway, else the id of the first fetched gateway.  Whenever the gateway list is
  non-empty and no edited item supplies a gateway id, the result is the id of a fetched
  gateway.
\<close>

theorem gateway_selection:
  "CatalogModelForm_gatewayId mode gateways models draft query =
     spec_resolvedGateway gateways
       (map_option lm_gateway_id (CatalogModelForm_currentItem mode models))
       draft (map_option trim query) \<and>
   ProviderAuthForm_gatewayId mode gateways items draft query =
     spec_resolvedGateway gateways
       (map_option pa_gateway_id (ProviderAuthForm_currentItem mode items))
       draft (map_option trim query) \<and>
   ModelsSyncPage_activeGatewayId gateways draft = spec_resolvedGateway gateways None draft None \<and>
   (gateways \<noteq> [] \<and>
    \<not> truthy_opt (map_option lm_gateway_id (CatalogModelForm_currentItem mode models)) \<longrightarrow>
      CatalogModelForm_gatewayId mode gateways models draft query \<in> gw_id ` set gateways) \<and>
   (gateways \<noteq> [] \<and>
    \<not> truthy_opt (map_option pa_gateway_id (ProviderAuthForm_currentItem mode items)) \<longrightarrow>
      ProviderAuthForm_gatewayId mode gateways items draft query \<in> gw_id ` set gateways) \<and>
   (gateways \<noteq> [] \<longrightarrow> ModelsSyncPage_activeGatewayId gateways draft \<in> gw_id ` set gateways)"
proof -
  have n: "\<not> truthy_opt None" by (simp add: truthy_opt_def)
  show ?thesis
    unfolding CatalogModelForm_gatewayId_spec ProviderAuthForm_gatewayId_spec
      ModelsSyncPage_activeGatewayId_spec
    using spec_resolvedGateway_existing n by blast
qed

theorem gateway_selection_witness:
  "exampleGateways \<noteq> [] \<and>
   \<not> truthy_opt (map_option lm_gateway_id (CatalogModelForm_currentItem Create exampleModels)) \<and>
   CatalogModelForm_gatewayId Create exampleGateways exampleModels (Some ''gX'') (Some (CHR 0xA0 # ''g2 '')) = ''g2'' \<and>
   CatalogModelForm_gatewayId Create exampleGateways exampleModels (Some ''gX'') (Some (CHR 0xA0 # ''g2 ''))
     \<in> gw_id ` set exampleGateways"
proof -
  have h: "exampleGateways \<noteq> []"
    by (simp add: exampleGateways_def)
  have c: "\<not> truthy_opt (map_option lm_gateway_id (CatalogModelForm_currentItem Create exampleModels))"
    by (simp add: CatalogModelForm_currentItem_def truthy_opt_def)
  have v: "CatalogModelForm_gatewayId Create exampleGateways exampleModels (Some ''gX'') (Some (CHR 0xA0 # ''g2 ''))
      = ''g2''"
    by code_simp
  from gateway_selection[of Create exampleGateways exampleModels "Some ''gX''" "Some (CHR 0xA0 # ''g2 '')"
      "[]"] h c
  have "CatalogModelForm_gatewayId Create exampleGateways exampleModels (Some ''gX'') (Some (CHR 0xA0 # ''g2 ''))
     \<in> gw_id ` set exampleGateways"
    by blast
  with h c v show ?thesis by simp
qed

subsection \<open>The routing edit page: fallbacks and the save request\<close>

lemma set_filterIndexed:
  "v \<in> set (filterIndexed p xs) \<Longrightarrow> \<exists>i < length xs. xs ! i = v \<and> p v i xs"
  unfolding filterIndexed_def
  by (auto simp: set_zip)

lemma distinct_filterIndexed:
  assumes "\<And>v i l. p v i l \<Longrightarrow> indexOf l v = int i"
  shows "distinct (filterIndexed p xs)"
proof -
  let ?ps = "filter (\<lambda>(v, index). p v index xs) (zip xs [0..<length xs])"
  have d: "distinct ?ps"
    by (intro distinct_filter) (simp add: distinct_zipI2)
  have "inj_on fst (set ?ps)"
  proof (rule inj_onI)
    fix a b assume a: "a \<in> set ?ps" and b: "b \<in> set ?ps" and e: "fst a = fst b"
    have "indexOf xs (fst a) = int (snd a)" using a assms by (auto simp: case_prod_beta)
    moreover have "indexOf xs (fst b) = int (snd b)" using b assms by (auto simp: case_prod_beta)
    ultimately have "snd a = snd b" using e by simp
    with e show "a = b" by (simp add: prod_eq_iff)
  qed
  with d show ?thesis
    unfolding filterIndexed_def by (simp add: distinct_map)
qed

lemma fallbackModelIds_props:
  "x \<in> set (fallbackModelIds d st) \<Longrightarrow> x \<noteq> primaryModelId d st \<and> x \<in> availableModelIds d"
  unfolding fallbackModelIds_def Let_def
  by (auto dest!: set_filterIndexed)

lemma distinct_fallbackModelIds: "distinct (fallbackModelIds d st)"
  unfolding fallbackModelIds_def Let_def
  by (rule distinct_filterIndexed) simp

lemma availableModelIds_subset: "availableModelIds d \<subseteq> spec_gatewayCatalogIds d"
proof (cases "ed_agent d")
  case None
  then show ?thesis by (simp add: availableModelIds_def modelsForGateway_def)
next
  case (Some agent)
  then show ?thesis
    by (auto simp: availableModelIds_def modelsForGateway_def spec_gatewayCatalogIds_def)
qed

lemma primaryModelId_cases: "primaryModelId d st = [] \<or> primaryModelId d st \<in> availableModelIds d"
  by (simp add: primaryModelId_def)

text \<open>
  C3: after any sequence of user actions on the routing edit page, starting from any state,
  the displayed fallback id list does not contain the displayed primary model id; and
  choosing \<open>v\<close> as primary stores \<open>v\<close> as the primary draft and a fallback draft without \<open>v\<close>.
\<close>

theorem fallback_never_contains_primary:
  "primaryModelId d (foldl (routingStep d) st0 evs)
     \<notin> set (fallbackModelIds d (foldl (routingStep d) st0 evs)) \<and>
   primaryModelDraft (routingStep d st (SelectPrimary v)) = Some v \<and>
   (\<exists>ids. fallbackModelDraft (routingStep d st (SelectPrimary v)) = Some ids \<and> v \<notin> set ids)"
proof -
  have "primaryModelId d s \<notin> set (fallbackModelIds d s)" for s
    using fallbackModelIds_props[of "primaryModelId d s" d s] by blast
  then show ?thesis
    by (simp add: routingStep_def Let_def)
qed

theorem fallback_never_contains_primary_witness:
  "primaryModelId (exampleData None (Some [''m2'', ''m1'']))
     (foldl (routingStep (exampleData None (Some [''m2'', ''m1''])))
        initialRoutingState [CheckFallback ''m1'', SelectPrimary ''m1'']) = ''m1'' \<and>
   ''m1'' \<notin> set (fallbackModelIds (exampleData None (Some [''m2'', ''m1'']))
     (foldl (routingStep (exampleData None (Some [''m2'', ''m1''])))
        initialRoutingState [CheckFallback ''m1'', SelectPrimary ''m1'']))"
proof -
  let ?d = "exampleData None (Some [''m2'', ''m1''])"
  let ?evs = "[CheckFallback ''m1'', SelectPrimary ''m1'']"
  have p: "primaryModelId ?d (foldl (routingStep ?d) initialRoutingState ?evs) = ''m1''"
    by code_simp
  from fallback_never_contains_primary[of ?d initialRoutingState ?evs] p
  show ?thesis by simp
qed

text \<open>
  C4: a save request issued by the routing edit page carries a primary model id that is
  null or the id of a catalog model of the agent's gateway, and a fallback list that is null
  or a non-empty list without duplicates of ids of that gateway's catalog models, none of
  them the primary.
\<close>

theorem save_request_wellformed:
  assumes "handleSave d st = (st', Some req)"
  shows "(req_primary_model_id req = None \<or>
          (\<exists>p. req_primary_model_id req = Some p \<and> p \<in> spec_gatewayCatalogIds d)) \<and>
         (req_fallback_model_ids req = None \<or>
          (\<exists>ids. req_fallback_model_ids req = Some ids \<and> ids \<noteq> [] \<and> distinct ids \<and>
                 set ids \<subseteq> spec_gatewayCatalogIds d \<and>
                 req_primary_model_id req \<notin> Some ` set ids))"
proof -
  from assms obtain agent where ag: "ed_agent d = Some agent"
    by (auto simp: handleSave_def split: option.splits)
  from assms ag have req: "req = \<lparr> req_agentId = ag_id agent, req_force = True,
                    req_primary_model_id =
                      (if truthy (primaryModelId d st) then Some (primaryModelId d st) else None),
                    req_fallback_model_ids =
                      (if length (fallbackModelIds d st) > 0 then Some (fallbackModelIds d st)
                       else None) \<rparr>"
    by (auto simp: handleSave_def split: if_splits)
  have p: "req_primary_model_id req = None \<or>
          (\<exists>p. req_primary_model_id req = Some p \<and> p \<in> spec_gatewayCatalogIds d)"
    using primaryModelId_cases[of d st] availableModelIds_subset[of d]
    by (auto simp: req truthy_def)
  have f: "req_fallback_model_ids req = None \<or>
          (\<exists>ids. req_fallback_model_ids req = Some ids \<and> ids \<noteq> [] \<and> distinct ids \<and>
                 set ids \<subseteq> spec_gatewayCatalogIds d \<and>
                 req_primary_model_id req \<notin> Some ` set ids)"
    using fallbackModelIds_props[of _ d st] availableModelIds_subset[of d]
      distinct_fallbackModelIds[of d st]
    by (auto simp: req)
  from p f show ?thesis by blast
qed

theorem save_request_wellformed_witness:
  "handleSave (exampleData (Some ''m1'') (Some [''m2'', ''m1'', ''m2'', ''m3''])) initialRoutingState =
     (initialRoutingState,
      Some \<lparr> req_agentId = ''a1'', req_force = True, req_primary_model_id = Some ''m1'',
             req_fallback_model_ids = Some [''m2''] \<rparr>) \<and>
   ''m1'' \<in> spec_gatewayCatalogIds (exampleData (Some ''m1'') (Some [''m2'', ''m1'', ''m2'', ''m3''])) \<and>
   ''m2'' \<in> spec_gatewayCatalogIds (exampleData (Some ''m1'') (Some [''m2'', ''m1'', ''m2'', ''m3'']))"
proof -
  let ?d = "exampleData (Some ''m1'') (Some [''m2'', ''m1'', ''m2'', ''m3''])"
  have run: "handleSave ?d initialRoutingState =
     (initialRoutingState,
      Some \<lparr> req_agentId = ''a1'', req_force = True, req_primary_model_id = Some ''m1'',
             req_fallback_model_ids = Some [''m2''] \<rparr>)"
    by code_simp
  from save_request_wellformed[OF run] run show ?thesis by simp
qed

subsection \<open>Maps built from fetched lists\<close>

lemma newMap_snoc: "newMap key (xs @ [x]) = (newMap key xs)(key x \<mapsto> x)"
  by (simp add: newMap_def)

lemma newMap_find: "newMap key xs k = find (\<lambda>x. key x = k) (rev xs)"
  by (induction xs rule: rev_induct) (simp_all add: newMap_snoc, simp add: newMap_def)

lemma newMap_None: "newMap key xs k = None \<longleftrightarrow> k \<notin> key ` set xs"
  by (auto simp: newMap_find find_None_iff)

lemma find_SomeD: "find P xs = Some x \<Longrightarrow> x \<in> set xs \<and> P x"
  by (induction xs) (auto split: if_splits)

lemma newMap_Some: "newMap key xs k = Some x \<Longrightarrow> x \<in> set xs \<and> key x = k"
  using find_SomeD[of "\<lambda>x. key x = k" "rev xs" x] by (simp add: newMap_find)


subsection \<open>Sorting\<close>

lemma consistentD1: "consistent_compare c \<Longrightarrow> (c a b < 0) = (0 < c b a)"
  by (simp add: consistent_compare_def)

lemma consistentD2: "consistent_compare c \<Longrightarrow> c a b \<le> 0 \<Longrightarrow> c b d \<le> 0 \<Longrightarrow> c a d \<le> 0"
  unfolding consistent_compare_def by blast


lemma consistent_total: "consistent_compare c \<Longrightarrow> \<not> c a b \<le> 0 \<Longrightarrow> c b a \<le> 0"
  using consistentD1[of c b a] by simp









lemma consistent_key: "consistent_compare lc \<Longrightarrow> consistent_compare (\<lambda>a b. lc (f a) (f b))"
  unfolding consistent_compare_def by blast


lemma set_sortInsert: "set (sortInsert c x xs) = insert x (set xs)"
  by (induction xs) auto

lemma mset_sortInsert: "mset (sortInsert c x xs) = add_mset x (mset xs)"
  by (induction xs) auto

lemma mset_array_sort: "mset (array_sort c xs) = mset xs"
  by (induction xs) (simp_all add: mset_sortInsert)

lemma set_array_sort: "set (array_sort c xs) = set xs"
  by (induction xs) (simp_all add: set_sortInsert)

lemma sorted_sortInsert:
  assumes c: "consistent_compare c"
  shows "sorted_wrt (\<lambda>a b. c a b \<le> 0) xs \<Longrightarrow> sorted_wrt (\<lambda>a b. c a b \<le> 0) (sortInsert c x xs)"
proof (induction xs)
  case Nil
  then show ?case by simp
next
  case (Cons y ys)
  show ?case
  proof (cases "c x y \<le> 0")
    case True
    have "c x z \<le> 0" if "z \<in> set ys" for z
      using Cons.prems that consistentD2[OF c True, of z] by auto
    with True Cons.prems show ?thesis by auto
  next
    case False
    then have "c y x \<le> 0" by (rule consistent_total[OF c])
    with False Cons show ?thesis by (auto simp: set_sortInsert)
  qed
qed

lemma sorted_array_sort:
  "consistent_compare c \<Longrightarrow> sorted_wrt (\<lambda>a b. c a b \<le> 0) (array_sort c xs)"
  by (induction xs) (simp_all add: sorted_sortInsert)










lemma codeUnitCompare_flip: "(codeUnitCompare a b < 0) = (0 < codeUnitCompare b a)"
  by (induction a b rule: codeUnitCompare.induct) auto

lemma codeUnitCompare_Cons_le:
  "codeUnitCompare (x # xs) (y # ys) \<le> 0 \<longleftrightarrow>
     (of_char x :: nat) < of_char y \<or> (x = y \<and> codeUnitCompare xs ys \<le> 0)"
  by auto

lemma codeUnitCompare_trans:
  "codeUnitCompare a b \<le> 0 \<Longrightarrow> codeUnitCompare b d \<le> 0 \<Longrightarrow> codeUnitCompare a d \<le> 0"
proof (induction a arbitrary: b d)
  case Nil
  then show ?case by (cases d) auto
next
  case (Cons x xs)
  from Cons.prems(1) obtain y ys where b: "b = y # ys" by (cases b) auto
  from Cons.prems(2) b obtain z zs where d: "d = z # zs" by (cases d) auto
  from Cons.prems(1) have
    1: "(of_char x :: nat) < of_char y \<or> (x = y \<and> codeUnitCompare xs ys \<le> 0)"
    unfolding b codeUnitCompare_Cons_le .
  from Cons.prems(2) have
    2: "(of_char y :: nat) < of_char z \<or> (y = z \<and> codeUnitCompare ys zs \<le> 0)"
    unfolding b d codeUnitCompare_Cons_le .
  from 1 2 have "(of_char x :: nat) < of_char z \<or> (x = z \<and> codeUnitCompare xs zs \<le> 0)"
    using Cons.IH[of ys zs] by auto
  then show ?case unfolding d codeUnitCompare_Cons_le .
qed

lemma consistent_codeUnitCompare: "consistent_compare codeUnitCompare"
  unfolding consistent_compare_def
  using codeUnitCompare_flip codeUnitCompare_trans by blast


subsection \<open>Routing: effective primary model and status\<close>

lemma grouped_snoc:
  "grouped (xs @ [x]) =
     (grouped xs)(lm_gateway_id x \<mapsto>
        (case grouped xs (lm_gateway_id x) of None \<Rightarrow> [] | Some bucket \<Rightarrow> bucket) @ [x])"
  by (simp add: grouped_def)

lemma grouped_filter:
  "grouped models g =
     (if spec_gatewayCatalog models g = [] then None else Some (spec_gatewayCatalog models g))"
proof (induction models rule: rev_induct)
  case Nil
  then show ?case by (simp add: grouped_def spec_gatewayCatalog_def)
next
  case (snoc x xs)
  then show ?case
    by (auto simp: grouped_snoc spec_gatewayCatalog_def)
qed

lemma array_sort_Nil: "array_sort c xs = [] \<longleftrightarrow> xs = []"
  using mset_array_sort[of c xs] by (metis mset_zero_iff)

lemma array_sort_head:
  assumes c: "consistent_compare c" and h: "array_sort c xs = y # ys"
  shows "y \<in> set xs \<and> (\<forall>x \<in> set xs. c y x \<le> 0)"
proof -
  have s: "sorted_wrt (\<lambda>a b. c a b \<le> 0) (y # ys)"
    using sorted_array_sort[OF c, of xs] h by simp
  have e: "set xs = insert y (set ys)"
    using set_array_sort[of c xs] h by simp
  have "c y y \<le> 0" using consistentD1[OF c, of y y] by linarith
  with s e show ?thesis by auto
qed

lemma gatewayDefaultById_None:
  "gatewayDefaultById lc models g = None \<longleftrightarrow> spec_gatewayCatalog models g = []"
  by (auto simp: gatewayDefaultById_def grouped_filter array_sort_Nil split: list.splits)

lemma gatewayDefaultById_member:
  assumes "gatewayDefaultById lc models g = Some m"
  shows "m \<in> set (spec_gatewayCatalog models g)"
proof -
  let ?c = "\<lambda>a b. lc (lm_created_at a) (lm_created_at b)"
  from assms obtain ys where "array_sort ?c (spec_gatewayCatalog models g) = m # ys"
    by (auto simp: gatewayDefaultById_def grouped_filter split: if_splits list.splits)
  then have "m \<in> set (array_sort ?c (spec_gatewayCatalog models g))" by simp
  then show ?thesis by (simp add: set_array_sort)
qed

lemma gatewayDefaultById_Some:
  assumes "consistent_compare lc" "gatewayDefaultById lc models g = Some m"
  shows "spec_earliestCreated lc (spec_gatewayCatalog models g) m"
proof -
  let ?c = "\<lambda>a b. lc (lm_created_at a) (lm_created_at b)"
  from assms(2) obtain ys where "array_sort ?c (spec_gatewayCatalog models g) = m # ys"
    by (auto simp: gatewayDefaultById_def grouped_filter split: if_splits list.splits)
  from array_sort_head[OF consistent_key[OF assms(1)] this]
  show ?thesis by (simp add: spec_earliestCreated_def)
qed

lemma table_primary:
  "rr_primary (routingRow lc gateways boards models agent) =
     (if spec_resolves models (ag_primary_model_id agent)
        then find (\<lambda>m. lm_id m = the (ag_primary_model_id agent)) (rev models)
      else None)"
proof (cases "spec_resolves models (ag_primary_model_id agent)")
  case True
  then show ?thesis
    by (auto simp: routingRow_def Let_def spec_resolves_def truthy_opt_def truthy_def newMap_find)
next
  case False
  then have "\<not> truthy_opt (ag_primary_model_id agent) \<or>
      newMap lm_id models (the (ag_primary_model_id agent)) = None"
    by (auto simp: spec_resolves_def truthy_opt_def truthy_def newMap_None split: option.splits)
  with False show ?thesis
    by (auto simp: routingRow_def Let_def)
qed

lemma table_primary_Some:
  assumes "spec_resolves models (ag_primary_model_id agent)"
  shows "\<exists>m \<in> set models. rr_primary (routingRow lc gateways boards models agent) = Some m \<and>
      Some (lm_id m) = ag_primary_model_id agent"
proof -
  from assms obtain p where p: "ag_primary_model_id agent = Some p" "p \<noteq> []" "p \<in> lm_id ` set models"
    by (auto simp: spec_resolves_def)
  then obtain m where m: "newMap lm_id models p = Some m"
    using newMap_None[of lm_id models p] by auto
  from newMap_Some[OF m] m p assms show ?thesis
    by (auto simp: table_primary newMap_find)
qed

lemma table_effective:
  "rr_effectivePrimary (routingRow lc gateways boards models agent) =
     (case rr_primary (routingRow lc gateways boards models agent) of
        Some m \<Rightarrow> Some m
      | None \<Rightarrow> gatewayDefaultById lc models (ag_gateway_id agent))"
  by (simp add: routingRow_def Let_def)

lemma table_status:
  "rr_status (routingRow lc gateways boards models agent) =
     spec_status (spec_resolves models (ag_primary_model_id agent))
       (spec_gatewayCatalog models (ag_gateway_id agent) \<noteq> [])"
proof (cases "spec_resolves models (ag_primary_model_id agent)")
  case True
  from table_primary_Some[OF True, of lc gateways boards] 
  have "rr_primary (routingRow lc gateways boards models agent) \<noteq> None" by auto
  then have "rr_status (routingRow lc gateways boards models agent) = Override"
    by (simp add: routingRow_def Let_def)
  with True show ?thesis by (simp add: spec_status_def)
next
  case False
  then have n: "rr_primary (routingRow lc gateways boards models agent) = None"
    by (simp add: table_primary)
  then have "rr_status (routingRow lc gateways boards models agent) =
      (if gatewayDefaultById lc models (ag_gateway_id agent) \<noteq> None then Default else Unconfigured)"
    by (simp add: routingRow_def Let_def)
  with False show ?thesis by (simp add: spec_status_def gatewayDefaultById_None)
qed

lemma edit_catalog:
  "ed_agent d = Some agent \<Longrightarrow>
   modelsForGateway d = spec_editCatalog (ed_models d) (ag_gateway_id agent)"
  by (simp add: modelsForGateway_def spec_editCatalog_def spec_gatewayCatalog_def truthy_def)

lemma edit_primaryModelId:
  assumes "ed_agent d = Some agent" "primaryModelDraft st = None"
  shows "primaryModelId d st =
     (if spec_resolves (spec_editCatalog (ed_models d) (ag_gateway_id agent)) (ag_primary_model_id agent)
        then the (ag_primary_model_id agent) else [])"
  using assms
  by (auto simp: primaryModelId_def primaryModelIdCandidate_def baselinePrimaryModelId_def
      availableModelIds_def edit_catalog spec_resolves_def split: option.splits)

lemma edit_truthy:
  assumes "ed_agent d = Some agent" "primaryModelDraft st = None"
  shows "truthy (primaryModelId d st) \<longleftrightarrow>
     spec_resolves (spec_editCatalog (ed_models d) (ag_gateway_id agent)) (ag_primary_model_id agent)"
  unfolding edit_primaryModelId[OF assms]
  by (auto simp: truthy_def spec_resolves_def)

lemma edit_selected_Some:
  assumes ag: "ed_agent d = Some agent" and nd: "primaryModelDraft st = None"
    and r: "spec_resolves (spec_editCatalog (ed_models d) (ag_gateway_id agent)) (ag_primary_model_id agent)"
  shows "\<exists>m \<in> set (spec_editCatalog (ed_models d) (ag_gateway_id agent)).
           selectedPrimary d st = Some m \<and> Some (lm_id m) = ag_primary_model_id agent"
proof -
  let ?cat = "spec_editCatalog (ed_models d) (ag_gateway_id agent)"
  from r obtain p where p: "ag_primary_model_id agent = Some p" "p \<noteq> []" "p \<in> lm_id ` set ?cat"
    by (auto simp: spec_resolves_def)
  then obtain m where m: "newMap lm_id ?cat p = Some m"
    using newMap_None[of lm_id ?cat p] by auto
  have "primaryModelId d st = p" using edit_primaryModelId[OF ag nd] r p by simp
  then have "selectedPrimary d st = Some m"
    using m p by (simp add: selectedPrimary_def modelsById_def edit_catalog[OF ag] truthy_def)
  with newMap_Some[OF m] p show ?thesis by auto
qed

lemma edit_selected_None:
  assumes ag: "ed_agent d = Some agent" and nd: "primaryModelDraft st = None"
    and r: "\<not> spec_resolves (spec_editCatalog (ed_models d) (ag_gateway_id agent)) (ag_primary_model_id agent)"
  shows "selectedPrimary d st = None"
  using edit_truthy[OF ag nd] r by (simp add: selectedPrimary_def)

lemma edit_default:
  assumes ag: "ed_agent d = Some agent"
  shows "defaultPrimaryModel d =
     (case spec_editCatalog (ed_models d) (ag_gateway_id agent) of [] \<Rightarrow> None | m # _ \<Rightarrow> Some m)"
  by (simp add: defaultPrimaryModel_def edit_catalog[OF ag])

lemma edit_status:
  assumes ag: "ed_agent d = Some agent" and nd: "primaryModelDraft st = None"
  shows "editStatus d st =
     spec_status
       (spec_resolves (spec_editCatalog (ed_models d) (ag_gateway_id agent)) (ag_primary_model_id agent))
       (spec_editCatalog (ed_models d) (ag_gateway_id agent) \<noteq> [])"
proof (cases "spec_resolves (spec_editCatalog (ed_models d) (ag_gateway_id agent)) (ag_primary_model_id agent)")
  case True
  then show ?thesis using edit_truthy[OF ag nd] by (simp add: editStatus_def spec_status_def)
next
  case False
  then show ?thesis
    using edit_truthy[OF ag nd] edit_selected_None[OF ag nd False]
    by (auto simp: editStatus_def spec_status_def effectivePrimaryModel_def edit_default[OF ag]
        split: list.splits)
qed

text \<open>
  C1, amended.  For an agent the edit page has found and shows without a primary draft, and
  the same fetched catalog:
  on the routing table the effective primary is a catalog model with the id
  \<open>primary_model_id\<close> when that id resolves in the whole catalog, else a model of the agent's
  gateway that is earliest-created (\<open>localeCompare\<close> being a consistent comparator), else
  none when the gateway has no catalog model;
  on the edit page it is a model of the agent's gateway with the id \<open>primary_model_id\<close>
  when that id resolves among the models of the agent's gateway, else a model of the agent's
  gateway, else none when the gateway has no catalog model.
\<close>

theorem effective_primary_model:
  assumes ag: "ed_agent d = Some agent"
    and nd: "primaryModelDraft st = None"
  shows
    "(spec_resolves (ed_models d) (ag_primary_model_id agent) \<longrightarrow>
        (\<exists>m \<in> set (ed_models d).
           rr_effectivePrimary (routingRow lc gateways boards (ed_models d) agent) = Some m \<and>
           Some (lm_id m) = ag_primary_model_id agent)) \<and>
     (\<not> spec_resolves (ed_models d) (ag_primary_model_id agent) \<and>
      spec_gatewayCatalog (ed_models d) (ag_gateway_id agent) \<noteq> [] \<longrightarrow>
        (\<exists>m \<in> set (spec_gatewayCatalog (ed_models d) (ag_gateway_id agent)).
           rr_effectivePrimary (routingRow lc gateways boards (ed_models d) agent) = Some m \<and>
           (consistent_compare lc \<longrightarrow>
              spec_earliestCreated lc (spec_gatewayCatalog (ed_models d) (ag_gateway_id agent)) m))) \<and>
     (\<not> spec_resolves (ed_models d) (ag_primary_model_id agent) \<and>
      spec_gatewayCatalog (ed_models d) (ag_gateway_id agent) = [] \<longrightarrow>
        rr_effectivePrimary (routingRow lc gateways boards (ed_models d) agent) = None) \<and>
     (spec_resolves (spec_editCatalog (ed_models d) (ag_gateway_id agent)) (ag_primary_model_id agent) \<longrightarrow>
        (\<exists>m \<in> set (spec_editCatalog (ed_models d) (ag_gateway_id agent)).
           effectivePrimaryModel d st = Some m \<and> Some (lm_id m) = ag_primary_model_id agent)) \<and>
     (\<not> spec_resolves (spec_editCatalog (ed_models d) (ag_gateway_id agent)) (ag_primary_model_id agent) \<and>
      spec_editCatalog (ed_models d) (ag_gateway_id agent) \<noteq> [] \<longrightarrow>
        (\<exists>m \<in> set (spec_editCatalog (ed_models d) (ag_gateway_id agent)).
           effectivePrimaryModel d st = Some m)) \<and>
     (\<not> spec_resolves (spec_editCatalog (ed_models d) (ag_gateway_id agent)) (ag_primary_model_id agent) \<and>
      spec_editCatalog (ed_models d) (ag_gateway_id agent) = [] \<longrightarrow>
        effectivePrimaryModel d st = None)"
proof -
  let ?models = "ed_models d"
  let ?p = "ag_primary_model_id agent"
  let ?g = "ag_gateway_id agent"
  let ?row = "routingRow lc gateways boards ?models agent"
  let ?cat = "spec_editCatalog ?models ?g"
  have t1: "\<exists>m \<in> set ?models. rr_effectivePrimary ?row = Some m \<and> Some (lm_id m) = ?p"
    if "spec_resolves ?models ?p"
    using table_primary_Some[OF that, of lc gateways boards] by (auto simp: table_effective)
  have t2: "\<exists>m \<in> set (spec_gatewayCatalog ?models ?g). rr_effectivePrimary ?row = Some m \<and>
      (consistent_compare lc \<longrightarrow> spec_earliestCreated lc (spec_gatewayCatalog ?models ?g) m)"
    if "\<not> spec_resolves ?models ?p" "spec_gatewayCatalog ?models ?g \<noteq> []"
  proof -
    from that(1) have e: "rr_effectivePrimary ?row = gatewayDefaultById lc ?models ?g"
      by (simp add: table_effective table_primary)
    from that(2) obtain m where m: "gatewayDefaultById lc ?models ?g = Some m"
      using gatewayDefaultById_None[of lc ?models ?g] by auto
    have "m \<in> set (spec_gatewayCatalog ?models ?g)"
      by (rule gatewayDefaultById_member[OF m])
    with gatewayDefaultById_Some[OF _ m] e m show ?thesis by auto
  qed
  have t3: "rr_effectivePrimary ?row = None"
    if "\<not> spec_resolves ?models ?p" "spec_gatewayCatalog ?models ?g = []"
    using that by (simp add: table_effective table_primary gatewayDefaultById_None)
  have e1: "\<exists>m \<in> set ?cat. effectivePrimaryModel d st = Some m \<and> Some (lm_id m) = ?p"
    if "spec_resolves ?cat ?p"
    using edit_selected_Some[OF ag nd that] by (auto simp: effectivePrimaryModel_def)
  have e2: "\<exists>m \<in> set ?cat. effectivePrimaryModel d st = Some m"
    if "\<not> spec_resolves ?cat ?p" "?cat \<noteq> []"
    using edit_selected_None[OF ag nd that(1)] that(2)
    by (auto simp: effectivePrimaryModel_def edit_default[OF ag] split: list.splits)
  have e3: "effectivePrimaryModel d st = None"
    if "\<not> spec_resolves ?cat ?p" "?cat = []"
    using edit_selected_None[OF ag nd that(1)] that(2)
    by (simp add: effectivePrimaryModel_def edit_default[OF ag])
  from t1 t2 t3 e1 e2 e3 show ?thesis by blast
qed

text \<open>
  C2, amended.  The table shows \<open>Override\<close> exactly when \<open>primary_model_id\<close> resolves in the
  whole catalog, the edit page exactly when it resolves among the models of the agent's
  gateway; each shows \<open>Default\<close> when it does not but the gateway has a catalog model, and
  \<open>Unconfigured\<close> otherwise.  The two agree whenever the agent has a gateway id and every
  catalog model with the id \<open>primary_model_id\<close> belongs to the agent's gateway.
\<close>

theorem routing_status:
  assumes ag: "ed_agent d = Some agent"
    and nd: "primaryModelDraft st = None"
  shows
    "rr_status (routingRow lc gateways boards (ed_models d) agent) =
       spec_status (spec_resolves (ed_models d) (ag_primary_model_id agent))
         (spec_gatewayCatalog (ed_models d) (ag_gateway_id agent) \<noteq> []) \<and>
     editStatus d st =
       spec_status
         (spec_resolves (spec_editCatalog (ed_models d) (ag_gateway_id agent)) (ag_primary_model_id agent))
         (spec_editCatalog (ed_models d) (ag_gateway_id agent) \<noteq> []) \<and>
     (ag_gateway_id agent \<noteq> [] \<and>
      (\<forall>m \<in> set (ed_models d).
          Some (lm_id m) = ag_primary_model_id agent \<longrightarrow> lm_gateway_id m = ag_gateway_id agent) \<longrightarrow>
      editStatus d st = rr_status (routingRow lc gateways boards (ed_models d) agent))"
proof -
  let ?models = "ed_models d"
  let ?p = "ag_primary_model_id agent"
  let ?g = "ag_gateway_id agent"
  have agree: "editStatus d st = rr_status (routingRow lc gateways boards ?models agent)"
    if g: "?g \<noteq> []" and own: "\<forall>m \<in> set ?models. Some (lm_id m) = ?p \<longrightarrow> lm_gateway_id m = ?g"
  proof -
    have c: "spec_editCatalog ?models ?g = spec_gatewayCatalog ?models ?g"
      using g by (simp add: spec_editCatalog_def)
    have "spec_resolves (spec_gatewayCatalog ?models ?g) ?p = spec_resolves ?models ?p"
      using own by (auto simp: spec_resolves_def spec_gatewayCatalog_def)
    then show ?thesis
      by (simp add: edit_status[OF ag nd] table_status c)
  qed
  show ?thesis
    using agree by (simp add: edit_status[OF ag nd] table_status)
qed

text \<open>
  C1, as stated, fails on the edit page: the agent of gateway \<open>g1\<close> refers to the catalog
  model \<open>m3\<close> of gateway \<open>g2\<close>.  The routing table shows \<open>m3\<close>; the edit page, which looks
  the id up among the models of the agent's gateway only, shows \<open>m1\<close>.
\<close>

theorem effective_primary_model_counterexample:
  "rr_effectivePrimary
     (routingRow codeUnitCompare exampleGateways [] exampleModels (exampleAgent (Some ''m3'') None))
     = Some (exampleModels ! 2) \<and>
   lm_id (exampleModels ! 2) = ''m3'' \<and>
   effectivePrimaryModel (exampleData (Some ''m3'') None) initialRoutingState
     = Some (exampleModels ! 0) \<and>
   lm_id (exampleModels ! 0) = ''m1''"
  by code_simp

theorem effective_primary_model_witness:
  "consistent_compare codeUnitCompare \<and>
   ed_agent (exampleData None None) = Some (exampleAgent None None) \<and>
   primaryModelDraft initialRoutingState = None \<and>
   \<not> spec_resolves (ed_models (exampleData None None)) (ag_primary_model_id (exampleAgent None None)) \<and>
   spec_gatewayCatalog (ed_models (exampleData None None)) (ag_gateway_id (exampleAgent None None)) \<noteq> [] \<and>
   rr_effectivePrimary
     (routingRow codeUnitCompare exampleGateways [] (ed_models (exampleData None None))
        (exampleAgent None None)) = Some (exampleModels ! 1) \<and>
   spec_earliestCreated codeUnitCompare
     (spec_gatewayCatalog (ed_models (exampleData None None)) (ag_gateway_id (exampleAgent None None)))
     (exampleModels ! 1)"
proof -
  let ?d = "exampleData None None" and ?a = "exampleAgent None None"
  have ag: "ed_agent ?d = Some ?a" by code_simp
  have nd: "primaryModelDraft initialRoutingState = None" by (simp add: initialRoutingState_def)
  have nr: "\<not> spec_resolves (ed_models ?d) (ag_primary_model_id ?a)"
    by (simp add: spec_resolves_def exampleAgent_def)
  have ne: "spec_gatewayCatalog (ed_models ?d) (ag_gateway_id ?a) \<noteq> []"
    by (simp add: spec_gatewayCatalog_def exampleData_def exampleAgent_def exampleModels_def)
  have ev: "rr_effectivePrimary (routingRow codeUnitCompare exampleGateways [] (ed_models ?d) ?a)
      = Some (exampleModels ! 1)"
    by code_simp
  from effective_primary_model[OF ag nd, of codeUnitCompare exampleGateways "[]"]
    nr ne ev consistent_codeUnitCompare
  have "spec_earliestCreated codeUnitCompare (spec_gatewayCatalog (ed_models ?d) (ag_gateway_id ?a))
     (exampleModels ! 1)"
    by simp
  with consistent_codeUnitCompare ag nd nr ne ev show ?thesis by simp
qed

text \<open>
  Where no primary is set, the table takes the earliest-created model of the gateway as the
  default and the edit page the first fetched one: \<open>m2\<close> was created before \<open>m1\<close> and
  fetched after it.
\<close>

lemma edit_page_default_is_first_fetched:
  "rr_effectivePrimary
     (routingRow codeUnitCompare exampleGateways [] exampleModels (exampleAgent None None))
     = Some (exampleModels ! 1) \<and>
   effectivePrimaryModel (exampleData None None) initialRoutingState = Some (exampleModels ! 0) \<and>
   lm_created_at (exampleModels ! 1) = ''2025-01-01'' \<and>
   lm_created_at (exampleModels ! 0) = ''2025-02-01''"
  by code_simp

text \<open>
  C2, as stated, fails on the same input as C1: the table shows \<open>Override\<close> for the agent
  whose primary model belongs to another gateway, the edit page \<open>Default\<close>.
\<close>

theorem routing_status_counterexample:
  "rr_status (routingRow codeUnitCompare exampleGateways [] exampleModels (exampleAgent (Some ''m3'') None))
     = Override \<and>
   editStatus (exampleData (Some ''m3'') None) initialRoutingState = Default"
  by code_simp

theorem routing_status_witness:
  "ed_agent (exampleData (Some ''m1'') None) = Some (exampleAgent (Some ''m1'') None) \<and>
   primaryModelDraft initialRoutingState = None \<and>
   ag_gateway_id (exampleAgent (Some ''m1'') None) \<noteq> [] \<and>
   filter (\<lambda>m. lm_id m = ''m1'' \<and> lm_gateway_id m \<noteq> ''g1'') exampleModels = [] \<and>
   editStatus (exampleData (Some ''m1'') None) initialRoutingState = Override \<and>
   rr_status (routingRow codeUnitCompare exampleGateways []
      (ed_models (exampleData (Some ''m1'') None)) (exampleAgent (Some ''m1'') None)) = Override"
proof -
  let ?d = "exampleData (Some ''m1'') None" and ?a = "exampleAgent (Some ''m1'') None"
  have ag: "ed_agent ?d = Some ?a" by code_simp
  have nd: "primaryModelDraft initialRoutingState = None" by (simp add: initialRoutingState_def)
  have g: "ag_gateway_id ?a \<noteq> []" by (simp add: exampleAgent_def)
  have f: "filter (\<lambda>m. lm_id m = ''m1'' \<and> lm_gateway_id m \<noteq> ''g1'') exampleModels = []"
    by (simp add: exampleModels_def)
  have own: "\<forall>m \<in> set (ed_models ?d).
      Some (lm_id m) = ag_primary_model_id ?a \<longrightarrow> lm_gateway_id m = ag_gateway_id ?a"
    by (simp add: exampleData_def exampleAgent_def exampleModels_def)
  have ev: "editStatus ?d initialRoutingState = Override" by code_simp
  from routing_status[OF ag nd, of codeUnitCompare exampleGateways "[]"]
  have "ag_gateway_id ?a \<noteq> [] \<and>
      (\<forall>m \<in> set (ed_models ?d).
          Some (lm_id m) = ag_primary_model_id ?a \<longrightarrow> lm_gateway_id m = ag_gateway_id ?a) \<longrightarrow>
      editStatus ?d initialRoutingState =
        rr_status (routingRow codeUnitCompare exampleGateways [] (ed_models ?d) ?a)"
    by blast
  with g own have "editStatus ?d initialRoutingState =
        rr_status (routingRow codeUnitCompare exampleGateways [] (ed_models ?d) ?a)"
    by blast
  with ev have "rr_status (routingRow codeUnitCompare exampleGateways [] (ed_models ?d) ?a) = Override"
    by simp
  with ag nd g f ev show ?thesis by simp
qed

subsection \<open>Filtering by gateway, and error handlers\<close>

text \<open>
  C6, as stated, fails: the primary-override count asks for a truthy \<open>primary_model_id\<close>, so
  an agent whose \<open>primary_model_id\<close> is the empty string, which is not null, is not counted.
\<close>

theorem gateway_filtering_counterexample:
  "primaryOverrideCount ''g1'' [exampleAgent (Some []) None] = 0 \<and>
   ag_gateway_id (exampleAgent (Some []) None) = ''g1'' \<and>
   ag_primary_model_id (exampleAgent (Some []) None) \<noteq> None"
  by (simp add: primaryOverrideCount_def exampleAgent_def truthy_opt_def truthy_def)

text \<open>
  C6, amended.  On the sync page the four counts are the numbers of fetched provider-auth
  entries, catalog models and agents whose \<open>gateway_id\<close> equals the selected gateway, the
  primary-override count asking in addition for a \<open>primary_model_id\<close> that is neither null
  nor empty.  On the routing edit page the options are, in fetched order, the catalog models
  whose \<open>gateway_id\<close> equals that of the agent when the agent has a non-empty gateway id;
  there are no options when the agent is not found or has an empty gateway id.
\<close>

theorem gateway_filtering:
  "providerCount (ModelsSyncPage_activeGatewayId gateways draft) providerAuth =
     card {i. i < length providerAuth \<and>
              pa_gateway_id (providerAuth ! i) = ModelsSyncPage_activeGatewayId gateways draft} \<and>
   modelCount (ModelsSyncPage_activeGatewayId gateways draft) models =
     card {i. i < length models \<and>
              lm_gateway_id (models ! i) = ModelsSyncPage_activeGatewayId gateways draft} \<and>
   agentCount (ModelsSyncPage_activeGatewayId gateways draft) agents =
     card {i. i < length agents \<and>
              ag_gateway_id (agents ! i) = ModelsSyncPage_activeGatewayId gateways draft} \<and>
   primaryOverrideCount (ModelsSyncPage_activeGatewayId gateways draft) agents =
     card {i. i < length agents \<and>
              ag_gateway_id (agents ! i) = ModelsSyncPage_activeGatewayId gateways draft \<and>
              (\<exists>p. ag_primary_model_id (agents ! i) = Some p \<and> p \<noteq> [])} \<and>
   (ed_agent d = Some agent \<and> ag_gateway_id agent \<noteq> [] \<longrightarrow>
      modelOptions d =
        map (\<lambda>m. \<lparr> so_value = lm_id m,
                    so_label = lm_display_name m @ '' ('' @ lm_model_id m @ '')'' \<rparr>)
          (filter (\<lambda>m. lm_gateway_id m = ag_gateway_id agent) (ed_models d))) \<and>
   (ed_agent d = None \<or> (ed_agent d = Some agent \<and> ag_gateway_id agent = []) \<longrightarrow>
      modelOptions d = [])"
proof -
  have t: "truthy_opt v \<longleftrightarrow> (\<exists>p. v = Some p \<and> p \<noteq> [])" for v
    by (cases v) (simp_all add: truthy_opt_def truthy_def)
  have o1: "modelOptions d =
        map (\<lambda>m. \<lparr> so_value = lm_id m,
                    so_label = lm_display_name m @ '' ('' @ lm_model_id m @ '')'' \<rparr>)
          (filter (\<lambda>m. lm_gateway_id m = ag_gateway_id agent) (ed_models d))"
    if "ed_agent d = Some agent" "ag_gateway_id agent \<noteq> []"
    using that by (simp add: modelOptions_def modelsForGateway_def modelOptionLabel_def truthy_def)
  have o2: "modelOptions d = []"
    if "ed_agent d = None \<or> (ed_agent d = Some agent \<and> ag_gateway_id agent = [])"
    using that by (auto simp: modelOptions_def modelsForGateway_def truthy_def)
  show ?thesis
    using o1 o2
    by (simp add: providerCount_def modelCount_def agentCount_def primaryOverrideCount_def
        length_filter_conv_card t)
qed

theorem gateway_filtering_witness:
  "ed_agent (exampleData None None) = Some (exampleAgent None None) \<and>
   ag_gateway_id (exampleAgent None None) \<noteq> [] \<and>
   map so_value (modelOptions (exampleData None None)) = [''m1'', ''m2''] \<and>
   modelOptions (exampleData None None) =
        map (\<lambda>m. \<lparr> so_value = lm_id m,
                    so_label = lm_display_name m @ '' ('' @ lm_model_id m @ '')'' \<rparr>)
          (filter (\<lambda>m. lm_gateway_id m = ag_gateway_id (exampleAgent None None))
             (ed_models (exampleData None None))) \<and>
   modelCount (ModelsSyncPage_activeGatewayId exampleGateways (Some ''g2'')) exampleModels = 1"
proof -
  let ?d = "exampleData None None" and ?a = "exampleAgent None None"
  have ag: "ed_agent ?d = Some ?a" by code_simp
  have g: "ag_gateway_id ?a \<noteq> []" by (simp add: exampleAgent_def)
  have v: "map so_value (modelOptions ?d) = [''m1'', ''m2'']" by code_simp
  have c: "modelCount (ModelsSyncPage_activeGatewayId exampleGateways (Some ''g2'')) exampleModels = 1"
    by code_simp
  from gateway_filtering[of exampleGateways "Some ''g2''" "[]" exampleModels "[]" ?d ?a] ag g
  have "modelOptions ?d =
        map (\<lambda>m. \<lparr> so_value = lm_id m,
                    so_label = lm_display_name m @ '' ('' @ lm_model_id m @ '')'' \<rparr>)
          (filter (\<lambda>m. lm_gateway_id m = ag_gateway_id ?a) (ed_models ?d))"
    by blast
  with ag g v c show ?thesis by simp
qed

text \<open>
  C7, as stated, fails for the delete requests: the two delete mutations of the workspace
  page have no error handler, and the page has no error state; a failing delete leaves the
  page state as it was.
\<close>

theorem error_handlers_counterexample:
  "afterFailure deleteModelMutation \<lparr> message = ''Conflict'' \<rparr> initialWorkspaceState
     = initialWorkspaceState \<and>
   afterFailure deleteProviderMutation \<lparr> message = ''Conflict'' \<rparr> initialWorkspaceState
     = initialWorkspaceState"
  by (simp add: afterFailure_def deleteModelMutation_def deleteProviderMutation_def)

text \<open>
  C7, amended.  For every failing create or update request of the two forms, every failing
  routing save, and every failing sync or pull request, the error's message, or the fixed
  fallback string when the message is empty, is stored in the page's error state (the sync
  message on the sync page), no other state is changed and no retry is configured.  A
  failing delete request changes no state and is not retried either.
\<close>

theorem error_handlers:
  "afterFailure CatalogModelForm_createMutation err cst =
     cst\<lparr>cm_error := Some (if message err = [] then ''Unable to create model.'' else message err)\<rparr> \<and>
   afterFailure CatalogModelForm_updateMutation err cst =
     cst\<lparr>cm_error := Some (if message err = [] then ''Unable to update model.'' else message err)\<rparr> \<and>
   afterFailure ProviderAuthForm_createMutation err pst =
     pst\<lparr>pf_error :=
           Some (if message err = [] then ''Unable to create provider auth entry.''
                 else message err)\<rparr> \<and>
   afterFailure ProviderAuthForm_updateMutation err pst =
     pst\<lparr>pf_error :=
           Some (if message err = [] then ''Unable to update provider auth entry.''
                 else message err)\<rparr> \<and>
   afterFailure updateAgentMutation err rst =
     rst\<lparr>routingError :=
           Some (if message err = [] then ''Unable to save agent routing.'' else message err)\<rparr> \<and>
   afterFailure syncMutation err sst =
     sst\<lparr>syncMessage := Some (if message err = [] then ''Gateway sync failed.'' else message err)\<rparr> \<and>
   afterFailure pullMutation err sst =
     sst\<lparr>syncMessage := Some (if message err = [] then ''Gateway pull failed.'' else message err)\<rparr> \<and>
   afterFailure deleteProviderMutation err wst = wst \<and>
   afterFailure deleteModelMutation err wst = wst \<and>
   retriesOf CatalogModelForm_createMutation = 0 \<and>
   retriesOf CatalogModelForm_updateMutation = 0 \<and>
   retriesOf ProviderAuthForm_createMutation = 0 \<and>
   retriesOf ProviderAuthForm_updateMutation = 0 \<and>
   retriesOf updateAgentMutation = 0 \<and>
   retriesOf syncMutation = 0 \<and>
   retriesOf pullMutation = 0 \<and>
   retriesOf deleteProviderMutation = 0 \<and>
   retriesOf deleteModelMutation = 0"
  by (simp add: afterFailure_def retriesOf_def messageOr_def truthy_def
      CatalogModelForm_createMutation_def CatalogModelForm_updateMutation_def
      ProviderAuthForm_createMutation_def ProviderAuthForm_updateMutation_def
      updateAgentMutation_def syncMutation_def pullMutation_def
      deleteProviderMutation_def deleteModelMutation_def)

theorem error_handlers_witness:
  "afterFailure updateAgentMutation \<lparr> message = [] \<rparr> initialRoutingState =
     initialRoutingState\<lparr>routingError := Some ''Unable to save agent routing.''\<rparr> \<and>
   afterFailure syncMutation \<lparr> message = ''Bad gateway'' \<rparr>
       \<lparr> activeGatewayDraft = Some ''g1'', syncMessage = None \<rparr> =
     \<lparr> activeGatewayDraft = Some ''g1'', syncMessage = Some ''Bad gateway'' \<rparr>"
  using error_handlers[of "\<lparr> message = [] \<rparr>" initialCatalogFormState initialProviderFormState
       initialRoutingState "\<lparr> activeGatewayDraft = None, syncMessage = None \<rparr>"
       initialWorkspaceState]
    error_handlers[of "\<lparr> message = ''Bad gateway'' \<rparr>" initialCatalogFormState
       initialProviderFormState initialRoutingState
       "\<lparr> activeGatewayDraft = Some ''g1'', syncMessage = None \<rparr>" initialWorkspaceState]
  by simp

subsection \<open>The two forms\<close>

lemma toLowerCase_Nil: "toLowerCase s = [] \<longleftrightarrow> s = []"
  by (simp add: toLowerCase_def)

lemma parseSettings_Some:
  "parseSettings jsonParse s = Some kvs \<longleftrightarrow> jsonParse s = Some (JObj kvs)"
  by (auto simp: parseSettings_def split: option.splits json.splits)

lemma parseSettings_None:
  "parseSettings jsonParse s = None \<longleftrightarrow> \<not> (\<exists>kvs. jsonParse s = Some (JObj kvs))"
  by (auto simp: parseSettings_def split: option.splits json.splits)

lemma catalog_submit_sent:
  "snd (CatalogModelForm_handleSubmit jsonParse jsonStringify d st) \<noteq> None \<longleftrightarrow>
     spec_catalogSubmittable jsonParse jsonStringify d st \<and> cm_mode d \<noteq> Edit []"
  by (cases "cm_mode d")
     (auto simp: CatalogModelForm_handleSubmit_def spec_catalogSubmittable_def Let_def truthy_def
        toLowerCase_Nil parseSettings_None)

lemma catalog_submit_error:
  "snd (CatalogModelForm_handleSubmit jsonParse jsonStringify d st) = None \<Longrightarrow>
     \<exists>msg. msg \<noteq> [] \<and> fst (CatalogModelForm_handleSubmit jsonParse jsonStringify d st)
               = st\<lparr>cm_error := Some msg\<rparr>"
  by (cases "cm_mode d")
     (auto simp: CatalogModelForm_handleSubmit_def Let_def split: if_splits)

lemma catalog_submit_create:
  "snd (CatalogModelForm_handleSubmit jsonParse jsonStringify d st) = Some (CreateModel c) \<Longrightarrow>
     cm_mode d = Create \<and>
     fst (CatalogModelForm_handleSubmit jsonParse jsonStringify d st) = st\<lparr>cm_error := None\<rparr> \<and>
     c = \<lparr> mc_gateway_id = cm_gatewayId d st,
           mc_provider = toLowerCase (trim (cm_provider d st)),
           mc_model_id = trim (cm_modelId d st),
           mc_display_name = trim (cm_displayName d st),
           mc_settings =
             (if trim (cm_settingsText jsonStringify d st) = [] then None
              else parseSettings jsonParse (trim (cm_settingsText jsonStringify d st))) \<rparr>"
  by (cases "cm_mode d")
     (auto simp: CatalogModelForm_handleSubmit_def Let_def truthy_def isEdit_def split: if_splits)

lemma catalog_submit_update:
  "snd (CatalogModelForm_handleSubmit jsonParse jsonStringify d st) = Some (UpdateModel modelId u) \<Longrightarrow>
     cm_mode d = Edit modelId \<and>
     fst (CatalogModelForm_handleSubmit jsonParse jsonStringify d st) = st\<lparr>cm_error := None\<rparr> \<and>
     u = \<lparr> mu_provider = toLowerCase (trim (cm_provider d st)),
           mu_model_id = trim (cm_modelId d st),
           mu_display_name = trim (cm_displayName d st),
           mu_settings =
             (if trim (cm_settingsText jsonStringify d st) = [] then Some []
              else parseSettings jsonParse (trim (cm_settingsText jsonStringify d st))) \<rparr>"
  by (cases "cm_mode d")
     (auto simp: CatalogModelForm_handleSubmit_def Let_def truthy_def isEdit_def split: if_splits)

text \<open>
  C8, amended.  The catalog model form issues a request if and only if a gateway is
  resolved, the trimmed provider, model id and display name are non-empty, the settings text
  is blank or parses as a JSON object, and, in edit mode, the model identifier the page was
  mounted with is non-empty.  Otherwise it stores a non-empty error message, changes nothing
  else and sends no request.  A create request carries the resolved gateway, the trimmed and
  lower-cased provider, the trimmed model id and display name, and the parsed settings, or no
  settings field for a blank text; an update request carries the same fields, with the empty
  object for a blank settings text.  The settings are accepted exactly when the parse gives
  an object; null, arrays and other values are refused.
\<close>

theorem catalog_form_submit:
  "(snd (CatalogModelForm_handleSubmit jsonParse jsonStringify d st) \<noteq> None \<longleftrightarrow>
      spec_catalogSubmittable jsonParse jsonStringify d st \<and> cm_mode d \<noteq> Edit []) \<and>
   (snd (CatalogModelForm_handleSubmit jsonParse jsonStringify d st) = None \<longrightarrow>
      (\<exists>msg. msg \<noteq> [] \<and>
         fst (CatalogModelForm_handleSubmit jsonParse jsonStringify d st) = st\<lparr>cm_error := Some msg\<rparr>)) \<and>
   (snd (CatalogModelForm_handleSubmit jsonParse jsonStringify d st) = Some (CreateModel c) \<longrightarrow>
      cm_mode d = Create \<and>
      c = \<lparr> mc_gateway_id = cm_gatewayId d st,
            mc_provider = toLowerCase (trim (cm_provider d st)),
            mc_model_id = trim (cm_modelId d st),
            mc_display_name = trim (cm_displayName d st),
            mc_settings =
              (if trim (cm_settingsText jsonStringify d st) = [] then None
               else parseSettings jsonParse (trim (cm_settingsText jsonStringify d st))) \<rparr>) \<and>
   (snd (CatalogModelForm_handleSubmit jsonParse jsonStringify d st) = Some (UpdateModel modelId u) \<longrightarrow>
      cm_mode d = Edit modelId \<and>
      u = \<lparr> mu_provider = toLowerCase (trim (cm_provider d st)),
            mu_model_id = trim (cm_modelId d st),
            mu_display_name = trim (cm_displayName d st),
            mu_settings =
              (if trim (cm_settingsText jsonStringify d st) = [] then Some []
               else parseSettings jsonParse (trim (cm_settingsText jsonStringify d st))) \<rparr>) \<and>
   (parseSettings jsonParse s = Some kvs \<longleftrightarrow> jsonParse s = Some (JObj kvs))"
  using catalog_submit_sent[of jsonParse jsonStringify d st]
    catalog_submit_error[of jsonParse jsonStringify d st]
    catalog_submit_create[of jsonParse jsonStringify d st c]
    catalog_submit_update[of jsonParse jsonStringify d st modelId u]
    parseSettings_Some[of jsonParse s kvs]
  by blast

text \<open>
  C8, as stated, fails: mounted in edit mode with an empty model identifier, and as long as
  the catalog query has given no models (the form is shown until it answers), the form sends
  no request although a gateway is resolved, provider, model id and display name are
  non-empty and the settings text is blank.
\<close>

theorem catalog_form_submit_counterexample:
  "snd (CatalogModelForm_handleSubmit exampleParse exampleStringify (exampleCatalogForm (Edit []) [])
          (exampleCatalogDrafts None)) = None \<and>
   cm_gatewayId (exampleCatalogForm (Edit []) []) (exampleCatalogDrafts None) = ''g1'' \<and>
   trim (cm_provider (exampleCatalogForm (Edit []) []) (exampleCatalogDrafts None)) = ''OpenAI'' \<and>
   trim (cm_modelId (exampleCatalogForm (Edit []) []) (exampleCatalogDrafts None)) = ''gpt-5'' \<and>
   trim (cm_displayName (exampleCatalogForm (Edit []) []) (exampleCatalogDrafts None)) = ''GPT 5'' \<and>
   trim (cm_settingsText exampleStringify (exampleCatalogForm (Edit []) []) (exampleCatalogDrafts None)) = []"
  by code_simp

theorem catalog_form_submit_witness:
  "snd (CatalogModelForm_handleSubmit exampleParse exampleStringify (exampleCatalogForm Create exampleModels)
          (exampleCatalogDrafts (Some '' {} ''))) =
     Some (CreateModel \<lparr> mc_gateway_id = ''g1'', mc_provider = ''openai'', mc_model_id = ''gpt-5'',
                         mc_display_name = ''GPT 5'', mc_settings = Some [] \<rparr>) \<and>
   cm_mode (exampleCatalogForm Create exampleModels) = Create \<and>
   spec_catalogSubmittable exampleParse exampleStringify (exampleCatalogForm Create exampleModels)
     (exampleCatalogDrafts (Some '' {} ''))"
proof -
  have run: "snd (CatalogModelForm_handleSubmit exampleParse exampleStringify (exampleCatalogForm Create exampleModels)
          (exampleCatalogDrafts (Some '' {} ''))) =
     Some (CreateModel \<lparr> mc_gateway_id = ''g1'', mc_provider = ''openai'', mc_model_id = ''gpt-5'',
                         mc_display_name = ''GPT 5'', mc_settings = Some [] \<rparr>)"
    by code_simp
  from catalog_form_submit[of exampleParse exampleStringify "exampleCatalogForm Create exampleModels"
      "exampleCatalogDrafts (Some '' {} '')"
      "\<lparr> mc_gateway_id = ''g1'', mc_provider = ''openai'', mc_model_id = ''gpt-5'',
                         mc_display_name = ''GPT 5'', mc_settings = Some [] \<rparr>"] run
  show ?thesis by simp
qed

lemma provider_submit_none:
  "snd (ProviderAuthForm_handleSubmit d st) = None \<Longrightarrow>
     \<exists>msg. msg \<noteq> [] \<and> fst (ProviderAuthForm_handleSubmit d st) = st\<lparr>pf_error := Some msg\<rparr>"
  by (cases "pf_mode d")
     (auto simp: ProviderAuthForm_handleSubmit_def Let_def split: if_splits)

lemma provider_submit_blocked:
  "trim (pf_provider d st) = [] \<or> (pf_mode d = Create \<and> trim (pf_secret st) = []) \<Longrightarrow>
     snd (ProviderAuthForm_handleSubmit d st) = None"
  by (cases "pf_mode d")
     (auto simp: ProviderAuthForm_handleSubmit_def Let_def truthy_def toLowerCase_Nil)

lemma provider_submit_create:
  "snd (ProviderAuthForm_handleSubmit d st) = Some (CreateProviderAuth c) \<Longrightarrow>
     pf_mode d = Create \<and> trim (pf_secret st) \<noteq> [] \<and>
     c = \<lparr> pc_gateway_id = pf_gatewayId d st,
           pc_provider = toLowerCase (trim (pf_provider d st)),
           pc_config_path =
             (if trim (pf_configPath d st) = []
                then ''providers.'' @ toLowerCase (trim (pf_provider d st)) @ ''.apiKey''
              else trim (pf_configPath d st)),
           pc_secret = trim (pf_secret st) \<rparr>"
  by (cases "pf_mode d")
     (auto simp: ProviderAuthForm_handleSubmit_def Let_def truthy_def split: if_splits)

lemma provider_submit_update:
  "snd (ProviderAuthForm_handleSubmit d st) = Some (UpdateProviderAuth providerAuthId u) \<Longrightarrow>
     pf_mode d = Edit providerAuthId \<and>
     u = \<lparr> pu_provider = toLowerCase (trim (pf_provider d st)),
           pu_config_path =
             (if trim (pf_configPath d st) = []
                then ''providers.'' @ toLowerCase (trim (pf_provider d st)) @ ''.apiKey''
              else trim (pf_configPath d st)),
           pu_secret = (if trim (pf_secret st) = [] then None else Some (trim (pf_secret st))) \<rparr>"
  by (cases "pf_mode d")
     (auto simp: ProviderAuthForm_handleSubmit_def Let_def truthy_def split: if_splits)

lemma provider_submit_sends_create:
  assumes "pf_mode d = Create" "pf_gatewayId d st \<noteq> []" "trim (pf_provider d st) \<noteq> []"
    "trim (pf_secret st) \<noteq> []"
  shows "ProviderAuthForm_handleSubmit d st =
     (st\<lparr>pf_error := None\<rparr>,
      Some (CreateProviderAuth
        \<lparr> pc_gateway_id = pf_gatewayId d st,
          pc_provider = toLowerCase (trim (pf_provider d st)),
          pc_config_path =
            (if trim (pf_configPath d st) = []
               then ''providers.'' @ toLowerCase (trim (pf_provider d st)) @ ''.apiKey''
             else trim (pf_configPath d st)),
          pc_secret = trim (pf_secret st) \<rparr>))"
  using assms
  by (simp add: ProviderAuthForm_handleSubmit_def Let_def truthy_def toLowerCase_Nil)

lemma provider_submit_sends_update:
  assumes "pf_mode d = Edit providerAuthId" "providerAuthId \<noteq> []" "pf_gatewayId d st \<noteq> []"
    "trim (pf_provider d st) \<noteq> []"
  shows "ProviderAuthForm_handleSubmit d st =
     (st\<lparr>pf_error := None\<rparr>,
      Some (UpdateProviderAuth providerAuthId
        \<lparr> pu_provider = toLowerCase (trim (pf_provider d st)),
          pu_config_path =
            (if trim (pf_configPath d st) = []
               then ''providers.'' @ toLowerCase (trim (pf_provider d st)) @ ''.apiKey''
             else trim (pf_configPath d st)),
          pu_secret = (if trim (pf_secret st) = [] then None else Some (trim (pf_secret st))) \<rparr>))"
  using assms
  by (simp add: ProviderAuthForm_handleSubmit_def Let_def truthy_def toLowerCase_Nil)

text \<open>
  C9.  In the provider auth form an empty trimmed provider, or in create mode an empty
  trimmed secret, stores an error message and sends no request.  With a gateway resolved and
  a non-empty trimmed provider, create mode with a non-empty trimmed secret sends a create
  request carrying that trimmed secret, and edit mode (mounted with a non-empty identifier)
  sends an update request that carries no secret when the secret is blank (the stored one is
  kept) and the trimmed secret otherwise.  In both modes the provider is trimmed and
  lower-cased, and a blank config path becomes \<open>providers.<provider>.apiKey\<close> with that
  provider.  No other request is ever sent.
\<close>

theorem provider_form_submit:
  "(trim (pf_provider d st) = [] \<or> (pf_mode d = Create \<and> trim (pf_secret st) = []) \<longrightarrow>
      snd (ProviderAuthForm_handleSubmit d st) = None \<and>
      (\<exists>msg. msg \<noteq> [] \<and> fst (ProviderAuthForm_handleSubmit d st) = st\<lparr>pf_error := Some msg\<rparr>)) \<and>
   (pf_mode d = Create \<and> pf_gatewayId d st \<noteq> [] \<and> trim (pf_provider d st) \<noteq> [] \<and>
    trim (pf_secret st) \<noteq> [] \<longrightarrow>
      ProviderAuthForm_handleSubmit d st =
        (st\<lparr>pf_error := None\<rparr>,
         Some (CreateProviderAuth
           \<lparr> pc_gateway_id = pf_gatewayId d st,
             pc_provider = toLowerCase (trim (pf_provider d st)),
             pc_config_path =
               (if trim (pf_configPath d st) = []
                  then ''providers.'' @ toLowerCase (trim (pf_provider d st)) @ ''.apiKey''
                else trim (pf_configPath d st)),
             pc_secret = trim (pf_secret st) \<rparr>))) \<and>
   (pf_mode d = Edit providerAuthId \<and> providerAuthId \<noteq> [] \<and> pf_gatewayId d st \<noteq> [] \<and>
    trim (pf_provider d st) \<noteq> [] \<longrightarrow>
      ProviderAuthForm_handleSubmit d st =
        (st\<lparr>pf_error := None\<rparr>,
         Some (UpdateProviderAuth providerAuthId
           \<lparr> pu_provider = toLowerCase (trim (pf_provider d st)),
             pu_config_path =
               (if trim (pf_configPath d st) = []
                  then ''providers.'' @ toLowerCase (trim (pf_provider d st)) @ ''.apiKey''
                else trim (pf_configPath d st)),
             pu_secret =
               (if trim (pf_secret st) = [] then None else Some (trim (pf_secret st))) \<rparr>))) \<and>
   (snd (ProviderAuthForm_handleSubmit d st) = Some (CreateProviderAuth c) \<longrightarrow>
      pf_mode d = Create \<and> trim (pf_secret st) \<noteq> [] \<and>
      c = \<lparr> pc_gateway_id = pf_gatewayId d st,
            pc_provider = toLowerCase (trim (pf_provider d st)),
            pc_config_path =
              (if trim (pf_configPath d st) = []
                 then ''providers.'' @ toLowerCase (trim (pf_provider d st)) @ ''.apiKey''
               else trim (pf_configPath d st)),
            pc_secret = trim (pf_secret st) \<rparr>) \<and>
   (snd (ProviderAuthForm_handleSubmit d st) = Some (UpdateProviderAuth providerAuthId' u) \<longrightarrow>
      pf_mode d = Edit providerAuthId' \<and>
      u = \<lparr> pu_provider = toLowerCase (trim (pf_provider d st)),
            pu_config_path =
              (if trim (pf_configPath d st) = []
                 then ''providers.'' @ toLowerCase (trim (pf_provider d st)) @ ''.apiKey''
               else trim (pf_configPath d st)),
            pu_secret = (if trim (pf_secret st) = [] then None else Some (trim (pf_secret st))) \<rparr>)"
  using provider_submit_blocked[of d st] provider_submit_none[of d st]
    provider_submit_sends_create[of d st] provider_submit_sends_update[of d providerAuthId st]
    provider_submit_create[of d st c] provider_submit_update[of d st providerAuthId' u]
  by blast

theorem provider_form_submit_witness:
  "pf_mode (exampleProviderForm Create) = Create \<and>
   pf_gatewayId (exampleProviderForm Create) (exampleProviderDrafts (Some '' OpenAI'') (CHR 0xA0 # ''sk-1 '')) \<noteq> [] \<and>
   trim (pf_provider (exampleProviderForm Create) (exampleProviderDrafts (Some '' OpenAI'') (CHR 0xA0 # ''sk-1 ''))) \<noteq> [] \<and>
   trim (pf_secret (exampleProviderDrafts (Some '' OpenAI'') (CHR 0xA0 # ''sk-1 ''))) \<noteq> [] \<and>
   fst (ProviderAuthForm_handleSubmit (exampleProviderForm Create) (exampleProviderDrafts (Some '' OpenAI'') (CHR 0xA0 # ''sk-1 ''))) = (exampleProviderDrafts (Some '' OpenAI'') (CHR 0xA0 # ''sk-1 ''))\<lparr>pf_error := None\<rparr> \<and>
   snd (ProviderAuthForm_handleSubmit (exampleProviderForm Create) (exampleProviderDrafts (Some '' OpenAI'') (CHR 0xA0 # ''sk-1 ''))) =
     Some (CreateProviderAuth
             \<lparr> pc_gateway_id = ''g2'', pc_provider = ''openai'',
               pc_config_path = ''providers.openai.apiKey'', pc_secret = ''sk-1'' \<rparr>) \<and>
   pf_mode (exampleProviderForm (Edit ''p1'')) = Edit ''p1'' \<and>
   pf_gatewayId (exampleProviderForm (Edit ''p1'')) (exampleProviderDrafts None ''sk-2'') \<noteq> [] \<and>
   trim (pf_provider (exampleProviderForm (Edit ''p1'')) (exampleProviderDrafts None ''sk-2'')) \<noteq> [] \<and>
   fst (ProviderAuthForm_handleSubmit (exampleProviderForm (Edit ''p1'')) (exampleProviderDrafts None ''sk-2'')) = (exampleProviderDrafts None ''sk-2'')\<lparr>pf_error := None\<rparr> \<and>
   snd (ProviderAuthForm_handleSubmit (exampleProviderForm (Edit ''p1'')) (exampleProviderDrafts None ''sk-2'')) =
     Some (UpdateProviderAuth ''p1''
             \<lparr> pu_provider = ''anthropic'', pu_config_path = ''providers.anthropic.apiKey'',
               pu_secret = Some ''sk-2'' \<rparr>) \<and>
   trim (pf_provider (exampleProviderForm Create) initialProviderFormState) = [] \<and>
   snd (ProviderAuthForm_handleSubmit (exampleProviderForm Create) initialProviderFormState) = None"
proof -
  have f0: "pf_mode (exampleProviderForm Create) = Create"
    by code_simp
  have f1: "pf_gatewayId (exampleProviderForm Create) (exampleProviderDrafts (Some '' OpenAI'') (CHR 0xA0 # ''sk-1 '')) \<noteq> []"
    by code_simp
  have f2: "trim (pf_provider (exampleProviderForm Create) (exampleProviderDrafts (Some '' OpenAI'') (CHR 0xA0 # ''sk-1 ''))) \<noteq> []"
    by code_simp
  have f3: "trim (pf_secret (exampleProviderDrafts (Some '' OpenAI'') (CHR 0xA0 # ''sk-1 ''))) \<noteq> []"
    by code_simp
  have "\<exists>r. ProviderAuthForm_handleSubmit (exampleProviderForm Create) (exampleProviderDrafts (Some '' OpenAI'') (CHR 0xA0 # ''sk-1 '')) =
      ((exampleProviderDrafts (Some '' OpenAI'') (CHR 0xA0 # ''sk-1 ''))\<lparr>pf_error := None\<rparr>, r)"
    using provider_form_submit[of "exampleProviderForm Create" "exampleProviderDrafts (Some '' OpenAI'') (CHR 0xA0 # ''sk-1 '')"] f0 f1 f2 f3
    by blast
  then have f4: "fst (ProviderAuthForm_handleSubmit (exampleProviderForm Create) (exampleProviderDrafts (Some '' OpenAI'') (CHR 0xA0 # ''sk-1 ''))) = (exampleProviderDrafts (Some '' OpenAI'') (CHR 0xA0 # ''sk-1 ''))\<lparr>pf_error := None\<rparr>"
    by auto
  have f5: "snd (ProviderAuthForm_handleSubmit (exampleProviderForm Create) (exampleProviderDrafts (Some '' OpenAI'') (CHR 0xA0 # ''sk-1 ''))) =
     Some (CreateProviderAuth
             \<lparr> pc_gateway_id = ''g2'', pc_provider = ''openai'',
               pc_config_path = ''providers.openai.apiKey'', pc_secret = ''sk-1'' \<rparr>)"
    by code_simp
  have f6: "pf_mode (exampleProviderForm (Edit ''p1'')) = Edit ''p1''"
    by code_simp
  have f7: "pf_gatewayId (exampleProviderForm (Edit ''p1'')) (exampleProviderDrafts None ''sk-2'') \<noteq> []"
    by code_simp
  have f8: "trim (pf_provider (exampleProviderForm (Edit ''p1'')) (exampleProviderDrafts None ''sk-2'')) \<noteq> []"
    by code_simp
  have ne: "''p1'' \<noteq> []" by simp
  have "\<exists>r. ProviderAuthForm_handleSubmit (exampleProviderForm (Edit ''p1'')) (exampleProviderDrafts None ''sk-2'') =
      ((exampleProviderDrafts None ''sk-2'')\<lparr>pf_error := None\<rparr>, r)"
    using provider_form_submit[of "exampleProviderForm (Edit ''p1'')" "exampleProviderDrafts None ''sk-2''" "''p1''"] f6 ne f7 f8
    by blast
  then have f9: "fst (ProviderAuthForm_handleSubmit (exampleProviderForm (Edit ''p1'')) (exampleProviderDrafts None ''sk-2'')) = (exampleProviderDrafts None ''sk-2'')\<lparr>pf_error := None\<rparr>"
    by auto
  have f10: "snd (ProviderAuthForm_handleSubmit (exampleProviderForm (Edit ''p1'')) (exampleProviderDrafts None ''sk-2'')) =
     Some (UpdateProviderAuth ''p1''
             \<lparr> pu_provider = ''anthropic'', pu_config_path = ''providers.anthropic.apiKey'',
               pu_secret = Some ''sk-2'' \<rparr>)"
    by code_simp
  have f11: "trim (pf_provider (exampleProviderForm Create) initialProviderFormState) = []"
    by code_simp
  have f12: "snd (ProviderAuthForm_handleSubmit (exampleProviderForm Create) initialProviderFormState) = None"
    using provider_form_submit[of "exampleProviderForm Create" initialProviderFormState] f11
    by blast
  show ?thesis
    by (intro conjI f0 f1 f2 f3 f4 f5 f6 f7 f8 f9 f10 f11 f12)
qed

end
